theory Spec2Isabelle
  imports Complex_Main
begin

section \<open>Values of the plotting module\<close>

text \<open>
  The development embeds the colorbar bookkeeping and the scalar binding of
  \<^verbatim>\<open>src/vtki/plotting.py\<close>: \<^verbatim>\<open>parse_font_family\<close>, \<^verbatim>\<open>parse_color\<close>,
  \<^verbatim>\<open>BasePlotter.__init__\<close>, \<^verbatim>\<open>clear\<close>, \<^verbatim>\<open>close\<close>, \<^verbatim>\<open>add_scalar_bar\<close> and the
  single-dataset path of \<^verbatim>\<open>add_mesh\<close>.

  A floating point number is either not-a-number or a finite value. Only comparison,
  negation and the coercion of a boolean to 0.0/1.0 are applied to numbers by the modelled
  code, all of which are exact, so a finite value is a real number. Infinities are not
  modelled.
\<close>

datatype pyfloat = Val real | NaN

text \<open>Comparison in Python: every comparison with not-a-number is false.\<close>

fun pyfloat_less :: "pyfloat \<Rightarrow> pyfloat \<Rightarrow> bool" where
  "pyfloat_less (Val a) (Val b) = (a < b)"
| "pyfloat_less _ _ = False"

text \<open>Truth value of a number: zero is false, everything else (also not-a-number) is true.\<close>

fun truthy :: "pyfloat \<Rightarrow> bool" where
  "truthy (Val a) = (a \<noteq> 0)"
| "truthy NaN = True"

fun neg :: "pyfloat \<Rightarrow> pyfloat" where
  "neg (Val a) = Val (- a)"
| "neg NaN = NaN"

type_synonym rng = "pyfloat \<times> pyfloat"

datatype error =
    MapperMissing               \<comment> \<open>\<^verbatim>\<open>Exception('Mapper does not exist. ...')\<close>\<close>
  | MaxColorBars                \<comment> \<open>\<^verbatim>\<open>RuntimeError('Maximum number of color bars reached.')\<close>\<close>
  | MinOfEmpty                  \<comment> \<open>\<^verbatim>\<open>ValueError\<close> of \<^verbatim>\<open>min\<close> on an empty set\<close>
  | InvalidColor                \<comment> \<open>\<^verbatim>\<open>Exception('Invalid color input ...')\<close>\<close>
  | UnknownColorName            \<comment> \<open>raised inside \<^verbatim>\<open>vtki.string_to_rgb\<close>\<close>
  | InvalidFont                 \<comment> \<open>\<^verbatim>\<open>Exception('Font must be either ...')\<close>\<close>
  | KeyError
  | NameErrorShape              \<comment> \<open>the unbound name \<^verbatim>\<open>shape\<close> in \<^verbatim>\<open>add_scalar_bar\<close>\<close>
  | InteractiveMultiRenderer    \<comment> \<open>\<^verbatim>\<open>Exception('Interactive scalar bars disabled ...')\<close>\<close>
  | NotMatching nat nat nat     \<comment> \<open>\<^verbatim>\<open>_raise_not_matching\<close>: array size, point count, cell count\<close>
  | ZeroSizeReduction           \<comment> \<open>\<^verbatim>\<open>ValueError\<close> of \<^verbatim>\<open>np.nanmin\<close> on an empty array\<close>
  | InvalidTextureType          \<comment> \<open>\<^verbatim>\<open>TypeError('Invalid texture type ...')\<close>\<close>
  | NoTextureCoordinates        \<comment> \<open>\<^verbatim>\<open>AssertionError('Input mesh does not have texture coordinates ...')\<close>\<close>
  | CmapRequiresMatplotlib      \<comment> \<open>\<^verbatim>\<open>Exception('cmap requires matplotlib')\<close>\<close>
  | UnknownCmap                 \<comment> \<open>raised inside \<^verbatim>\<open>matplotlib.cm.get_cmap\<close>\<close>
  | InvalidStyle                \<comment> \<open>\<^verbatim>\<open>Exception('Invalid style. ...')\<close>\<close>
  | ShapeNotPositive            \<comment> \<open>\<^verbatim>\<open>AssertionError('"shape" must be positive')\<close>\<close>

section \<open>Fonts and colors\<close>

datatype vtk_font = VTK_ARIAL | VTK_COURIER | VTK_TIMES

definition FONT_KEYS :: "string \<rightharpoonup> vtk_font" where
  "FONT_KEYS = [''arial'' \<mapsto> VTK_ARIAL, ''courier'' \<mapsto> VTK_COURIER, ''times'' \<mapsto> VTK_TIMES]"

text \<open>
  \<^verbatim>\<open>str.lower\<close>. A string is a list of bytes here; the ASCII capitals are mapped to the
  ASCII small letters and every other byte is kept. Python also lowers letters outside
  ASCII, but the result of lowering such a letter is never one of the ASCII letters that
  occur in the three accepted font names, so the accepted names are the same.
\<close>

definition lower_char :: "char \<Rightarrow> char" where
  "lower_char c =
     (let n = (of_char c :: nat) in if 65 \<le> n \<and> n \<le> 90 then char_of (n + 32) else c)"

definition lower :: "string \<Rightarrow> string" where
  "lower s = map lower_char s"

definition parse_font_family :: "string \<Rightarrow> error + vtk_font" where
  "parse_font_family font_family =
     (let font_family = lower font_family in
      if font_family \<notin> set [''courier'', ''times'', ''arial''] then Inl InvalidFont
      else (case FONT_KEYS font_family of None \<Rightarrow> Inl KeyError | Some f \<Rightarrow> Inr f))"

text \<open>
  A color argument is a string or a sequence of numbers. \<^verbatim>\<open>vtki.string_to_rgb\<close> is not
  part of the source file; it is a parameter of the model (\<open>None\<close> where it raises).
\<close>

datatype color_arg = ColorName string | ColorSeq "real list"

record rcParams =
  rc_font_family :: string               \<comment> \<open>\<^verbatim>\<open>rcParams['font']['family']\<close>\<close>
  rc_font_color :: "color_arg option"    \<comment> \<open>\<^verbatim>\<open>rcParams['font']['color']\<close>\<close>
  rc_cmap :: "string option"             \<comment> \<open>\<^verbatim>\<open>rcParams['cmap']\<close>\<close>
  rc_color :: color_arg                  \<comment> \<open>\<^verbatim>\<open>rcParams['color']\<close>\<close>
  rc_nan_color :: "color_arg option"     \<comment> \<open>\<^verbatim>\<open>rcParams['nan_color']\<close>\<close>
  rc_outline_color :: "color_arg option" \<comment> \<open>\<^verbatim>\<open>rcParams['outline_color']\<close>\<close>

definition default_rcParams :: rcParams where
  "default_rcParams =
     \<lparr> rc_font_family = ''courier'', rc_font_color = Some (ColorSeq [1, 1, 1]),
       rc_cmap = Some ''jet'', rc_color = ColorName ''white'',
       rc_nan_color = Some (ColorName ''darkgray''),
       rc_outline_color = Some (ColorName ''white'') \<rparr>"

definition parse_color ::
  "rcParams \<Rightarrow> (string \<Rightarrow> real list option) \<Rightarrow> color_arg option \<Rightarrow> error + real list" where
  "parse_color rc to_rgb color =
     (let color = (case color of None \<Rightarrow> rc_color rc | Some c \<Rightarrow> c) in
      case color of
        ColorName s \<Rightarrow> (case to_rgb s of None \<Rightarrow> Inl UnknownColorName | Some rgb \<Rightarrow> Inr rgb)
      | ColorSeq xs \<Rightarrow> if length xs = 3 then Inr xs else Inl InvalidColor)"

section \<open>The plotter and its mappers\<close>

text \<open>
  A mapper is an object of the rendering engine. The plotter keeps references to mappers
  in \<^verbatim>\<open>self.mapper\<close> and in the lists of \<^verbatim>\<open>self._scalar_bar_mappers\<close>, and writes the
  scalar range of all of them; a reference is a handle into an object store, so that two
  references to one mapper see the same range.
\<close>

type_synonym handle = nat

datatype scalar_mode = ScalarModeDefault | UsePointData | UseCellData | UseFieldData

record vtk_mapper =
  scalar_range :: rng
  mode :: scalar_mode
  array_name :: "string option"
  number_of_table_values :: nat
  interpolate_scalars_before_mapping :: bool

text \<open>A mapper as its constructor in the engine leaves it: the scalar range is (0, 1).\<close>

definition vtkDataSetMapper :: vtk_mapper where
  "vtkDataSetMapper =
     \<lparr> scalar_range = (Val 0, Val 1), mode = ScalarModeDefault, array_name = None,
       number_of_table_values = 256, interpolate_scalars_before_mapping = False \<rparr>"

definition SetScalarRange :: "rng \<Rightarrow> vtk_mapper \<Rightarrow> vtk_mapper" where
  "SetScalarRange r m = m\<lparr>scalar_range := r\<rparr>"

section \<open>Arrays and meshes\<close>

text \<open>
  A numpy array is its number of dimensions and its elements in row-major order (what
  \<^verbatim>\<open>ravel\<close> returns); its \<^verbatim>\<open>dtype\<close> is boolean or numeric.
\<close>

datatype ndarray = BoolArray nat "bool list" | NumArray nat "pyfloat list"

fun ndim :: "ndarray \<Rightarrow> nat" where
  "ndim (BoolArray d bs) = d"
| "ndim (NumArray d xs) = d"

fun array_size :: "ndarray \<Rightarrow> nat" where
  "array_size (BoolArray d bs) = length bs"
| "array_size (NumArray d xs) = length xs"

fun ravel :: "ndarray \<Rightarrow> ndarray" where
  "ravel (BoolArray d bs) = BoolArray 1 bs"
| "ravel (NumArray d xs) = NumArray 1 xs"

fun is_bool :: "ndarray \<Rightarrow> bool" where
  "is_bool (BoolArray d bs) = True"
| "is_bool (NumArray d xs) = False"

fun astype_float :: "ndarray \<Rightarrow> ndarray" where
  "astype_float (BoolArray d bs) = NumArray d (map (\<lambda>b. if b then Val 1 else Val 0) bs)"
| "astype_float (NumArray d xs) = NumArray d xs"

fun elements :: "ndarray \<Rightarrow> pyfloat list" where
  "elements (BoolArray d bs) = map (\<lambda>b. if b then Val 1 else Val 0) bs"
| "elements (NumArray d xs) = xs"

text \<open>
  \<^verbatim>\<open>np.nanmin\<close> and \<^verbatim>\<open>np.nanmax\<close>: an empty array raises, an array of not-a-numbers
  only gives not-a-number, otherwise the least (greatest) of the other elements.
\<close>

definition finite_values :: "pyfloat list \<Rightarrow> real list" where
  "finite_values xs = concat (map (\<lambda>x. case x of Val v \<Rightarrow> [v] | NaN \<Rightarrow> []) xs)"

definition nanmin :: "pyfloat list \<Rightarrow> error + pyfloat" where
  "nanmin xs =
     (if xs = [] then Inl ZeroSizeReduction
      else case finite_values xs of [] \<Rightarrow> Inr NaN | v # vs \<Rightarrow> Inr (Val (fold min vs v)))"

definition nanmax :: "pyfloat list \<Rightarrow> error + pyfloat" where
  "nanmax xs =
     (if xs = [] then Inl ZeroSizeReduction
      else case finite_values xs of [] \<Rightarrow> Inr NaN | v # vs \<Rightarrow> Inr (Val (fold max vs v)))"

datatype association = PointData | CellData

text \<open>
  A wrapped dataset, as far as the plotter reads and writes it: its point and cell counts,
  its two stores of named arrays, which array is active, the names of its textures and
  whether it has texture coordinates.
\<close>

record mesh =
  n_points :: nat
  n_cells :: nat
  point_arrays :: "string \<rightharpoonup> ndarray"
  cell_arrays :: "string \<rightharpoonup> ndarray"
  active_scalar_info :: "association \<times> string option"
  textures :: "string list"
  has_t_coords :: bool

text \<open>
  Modelled from the spec: the accessors of the mesh (\<^verbatim>\<open>active_scalar\<close>,
  \<^verbatim>\<open>_add_point_scalar\<close>, \<^verbatim>\<open>_add_cell_scalar\<close>, \<^verbatim>\<open>get_scalar\<close>) are defined outside the
  source file. The spec gives the mesh \<^verbatim>\<open>getArray(name, association)\<close> and
  \<^verbatim>\<open>setArray(name, association, array, makeActive)\<close>; a named lookup searches both stores,
  preferring the caller's association, and fails when the name is in neither.
\<close>

definition active_scalar :: "mesh \<Rightarrow> ndarray option" where
  "active_scalar m =
     (case active_scalar_info m of
        (_, None) \<Rightarrow> None
      | (PointData, Some n) \<Rightarrow> point_arrays m n
      | (CellData, Some n) \<Rightarrow> cell_arrays m n)"

definition add_point_scalar :: "ndarray \<Rightarrow> string \<Rightarrow> bool \<Rightarrow> mesh \<Rightarrow> mesh" where
  "add_point_scalar scalars name set_active m =
     m\<lparr> point_arrays := (point_arrays m)(name \<mapsto> scalars),
        active_scalar_info := (if set_active then (PointData, Some name) else active_scalar_info m) \<rparr>"

definition add_cell_scalar :: "ndarray \<Rightarrow> string \<Rightarrow> bool \<Rightarrow> mesh \<Rightarrow> mesh" where
  "add_cell_scalar scalars name set_active m =
     m\<lparr> cell_arrays := (cell_arrays m)(name \<mapsto> scalars),
        active_scalar_info := (if set_active then (CellData, Some name) else active_scalar_info m) \<rparr>"

definition get_scalar :: "mesh \<Rightarrow> string \<Rightarrow> association \<Rightarrow> error + ndarray" where
  "get_scalar m name preference =
     (case (point_arrays m name, cell_arrays m name) of
        (Some parr, Some carr) \<Rightarrow> (case preference of CellData \<Rightarrow> Inr carr | PointData \<Rightarrow> Inr parr)
      | (Some parr, None) \<Rightarrow> Inr parr
      | (None, Some carr) \<Rightarrow> Inr carr
      | (None, None) \<Rightarrow> Inl KeyError)"

text \<open>
  What \<^verbatim>\<open>add_mesh\<close> and \<^verbatim>\<open>add_scalar_bar\<close> call outside the source file and may fail
  there: \<^verbatim>\<open>vtki.string_to_rgb\<close> (\<open>None\<close> where it raises),
  \<^verbatim>\<open>mesh._activate_texture\<close> (whether it returns a texture rather than \<^verbatim>\<open>None\<close>), the
  import of matplotlib and its \<^verbatim>\<open>get_cmap\<close> (whether the colormap name is known). They
  are parameters of the model.
\<close>

datatype texture_arg = TextureBool bool | TextureName string | TextureObject | TextureOther

record externals =
  string_to_rgb :: "string \<Rightarrow> real list option"
  activate_texture :: "mesh \<Rightarrow> texture_arg \<Rightarrow> bool"
  matplotlib_installed :: bool
  get_cmap :: "string \<Rightarrow> bool"

section \<open>The plotting session\<close>

definition MAX_N_COLOR_BARS :: nat where
  "MAX_N_COLOR_BARS = 10"

text \<open>
  The attributes of \<^verbatim>\<open>BasePlotter\<close> that the colorbar bookkeeping and the scalar binding
  use. \<open>mapper = None\<close> is a plotter without the attribute \<^verbatim>\<open>mapper\<close>
  (\<^verbatim>\<open>hasattr(self, 'mapper')\<close> is false). \<open>heap\<close> is the store of the mapper objects and
  \<open>next_handle\<close> the handle of the next mapper that \<^verbatim>\<open>add_mesh\<close> constructs. The actors,
  widgets and renderers belong to the engine and are not part of the state.
\<close>

record plotter =
  shape :: "nat \<times> nat"
  scalar_bar_slots :: "nat set"
  scalar_bar_slot_lookup :: "string \<rightharpoonup> nat"
  scalar_bar_ranges :: "string \<rightharpoonup> rng"
  scalar_bar_mappers :: "string \<rightharpoonup> handle list"
  mesh :: "mesh option"
  mapper :: "handle option"
  heap :: "handle \<Rightarrow> vtk_mapper"
  next_handle :: handle

definition init_state :: "nat \<times> nat \<Rightarrow> plotter" where
  "init_state shp =
     \<lparr> shape = shp,
       scalar_bar_slots = set [0..<MAX_N_COLOR_BARS],
       scalar_bar_slot_lookup = Map.empty,
       scalar_bar_ranges = Map.empty,
       scalar_bar_mappers = Map.empty,
       mesh = None, mapper = None,
       heap = (\<lambda>_. vtkDataSetMapper), next_handle = 0 \<rparr>"

definition init :: "nat \<times> nat \<Rightarrow> error + plotter" where
  "init shp =
     (if \<not> (fst shp > 0) \<or> \<not> (snd shp > 0) then Inl ShapeNotPositive
      else Inr (init_state shp))"

definition clear :: "plotter \<Rightarrow> plotter" where
  "clear p =
     p\<lparr> scalar_bar_slots := set [0..<MAX_N_COLOR_BARS],
        scalar_bar_slot_lookup := Map.empty,
        scalar_bar_ranges := Map.empty,
        scalar_bar_mappers := Map.empty \<rparr>"

definition close :: "plotter \<Rightarrow> plotter" where
  "close p =
     p\<lparr> scalar_bar_slots := set [0..<MAX_N_COLOR_BARS],
        scalar_bar_slot_lookup := Map.empty,
        scalar_bar_ranges := Map.empty,
        scalar_bar_mappers := Map.empty \<rparr>"

subsection \<open>\<^verbatim>\<open>add_scalar_bar\<close>\<close>

text \<open>
  The arguments of \<^verbatim>\<open>add_scalar_bar\<close> that decide its control flow and its effect on
  the plotter. The size, the orientation and the text style of the bar only reach the
  actor of the engine. A call returns a pair: \<open>None\<close> and the plotter when it returns
  normally, \<open>Some e\<close> and the plotter as the raised exception leaves it otherwise.
\<close>

record sb_args =
  sb_title :: "string option"
  sb_n_labels :: nat
  sb_color :: "color_arg option"
  sb_font_family :: "string option"
  sb_mapper :: "handle option"
  sb_position_x :: "real option"
  sb_position_y :: "real option"
  sb_interactive :: "bool option"

text \<open>Truth value of the title: \<^verbatim>\<open>None\<close> and the empty string are false.\<close>

fun title_given :: "string option \<Rightarrow> string option" where
  "title_given None = None"
| "title_given (Some t) = (if t = [] then None else Some t)"

text \<open>Lines 1319 to 1334: the title has a range already.\<close>

definition sb_merge :: "string \<Rightarrow> handle \<Rightarrow> rng \<Rightarrow> plotter \<Rightarrow> error option \<times> plotter" where
  "sb_merge title mpr rng0 p =
     (let newrng = scalar_range (heap p mpr) in
      case scalar_bar_mappers p title of
        None \<Rightarrow> (Some KeyError, p)
      | Some oldmappers \<Rightarrow>
          let lo = (if pyfloat_less (fst newrng) (fst rng0) then fst newrng else fst rng0);
              hi = (if pyfloat_less (snd rng0) (snd newrng) then snd newrng else snd rng0);
              h1 = fold (\<lambda>m h. h(m := SetScalarRange (lo, hi) (h m))) oldmappers (heap p);
              h2 = h1(mpr := SetScalarRange (lo, hi) (h1 mpr))
          in (None, p\<lparr> heap := h2,
                        scalar_bar_mappers := (scalar_bar_mappers p)(title \<mapsto> oldmappers @ [mpr]),
                        scalar_bar_ranges := (scalar_bar_ranges p)(title \<mapsto> (lo, hi)) \<rparr>))"

text \<open>Lines 1337 to 1342: a position is chosen automatically, which takes the least free slot.\<close>

definition sb_choose_location :: "sb_args \<Rightarrow> plotter \<Rightarrow> error option \<times> plotter" where
  "sb_choose_location a p =
     (if sb_position_x a = None \<or> sb_position_y a = None then
        (if scalar_bar_slots p = {} then (Some MaxColorBars, p)
         else let slot = Min (scalar_bar_slots p)
              in (None, p\<lparr> scalar_bar_slots := scalar_bar_slots p - {slot} \<rparr>))
      else (None, p))"

text \<open>Lines 1396 to 1420: the title is recorded.\<close>

definition sb_set_title :: "string \<Rightarrow> string option \<Rightarrow> handle \<Rightarrow> plotter \<Rightarrow> error option \<times> plotter" where
  "sb_set_title font_family title mpr p =
     (case title_given title of
        None \<Rightarrow> (None, p)
      | Some t \<Rightarrow>
          let rng = scalar_range (heap p mpr);
              p1 = p\<lparr> scalar_bar_ranges := (scalar_bar_ranges p)(t \<mapsto> rng) \<rparr>;
              p2 = p1\<lparr> scalar_bar_mappers := (scalar_bar_mappers p1)(t \<mapsto> [mpr]) \<rparr>
          in if scalar_bar_slots p2 = {} then (Some MinOfEmpty, p2)
             else let slot = Min (scalar_bar_slots p2);
                      p3 = p2\<lparr> scalar_bar_slot_lookup := (scalar_bar_slot_lookup p2)(t \<mapsto> slot) \<rparr>
                  in case parse_font_family font_family of
                       Inl e \<Rightarrow> (Some e, p3)
                     | Inr f \<Rightarrow> (None, p3))"

text \<open>Lines 1422 to 1428: the check of \<^verbatim>\<open>interactive\<close>.\<close>

definition sb_interactive_check :: "sb_args \<Rightarrow> plotter \<Rightarrow> error option" where
  "sb_interactive_check a p =
     (case sb_interactive a of
        None \<Rightarrow> Some NameErrorShape
      | Some i \<Rightarrow> if i \<and> shape p \<noteq> (1, 1) then Some InteractiveMultiRenderer else None)"

text \<open>
  Lines 1336 to 1443: a bar is made, for a title that has no range yet or for no title.
  \<open>mpr\<close> is the mapper of the bar.
\<close>

definition sb_new ::
  "rcParams \<Rightarrow> externals \<Rightarrow> sb_args \<Rightarrow> handle \<Rightarrow> plotter \<Rightarrow> error option \<times> plotter" where
  "sb_new rc ext a mpr p =
     (let font_family = (case sb_font_family a of None \<Rightarrow> rc_font_family rc | Some f \<Rightarrow> f);
          color = (case sb_color a of None \<Rightarrow> rc_font_color rc | Some c \<Rightarrow> Some c)
      in case sb_choose_location a p of
           (Some e, p1) \<Rightarrow> (Some e, p1)
         | (None, p1) \<Rightarrow>
             (case parse_color rc (string_to_rgb ext) color of
                Inl e \<Rightarrow> (Some e, p1)
              | Inr rgb \<Rightarrow>
                  (case (if sb_n_labels a \<noteq> 0 then parse_font_family font_family
                         else Inr VTK_ARIAL) of
                     Inl e \<Rightarrow> (Some e, p1)
                   | Inr f \<Rightarrow>
                       (case sb_set_title font_family (sb_title a) mpr p1 of
                          (Some e, p2) \<Rightarrow> (Some e, p2)
                        | (None, p2) \<Rightarrow> (sb_interactive_check a p2, p2)))))"

text \<open>
  \<^verbatim>\<open>add_scalar_bar\<close>: the mapper is the argument or \<^verbatim>\<open>self.mapper\<close>; a title that has a
  range already merges the range of the mapper into it and returns, every other call makes
  a bar.
\<close>

definition add_scalar_bar ::
  "rcParams \<Rightarrow> externals \<Rightarrow> sb_args \<Rightarrow> plotter \<Rightarrow> error option \<times> plotter" where
  "add_scalar_bar rc ext a p =
     (case (case sb_mapper a of None \<Rightarrow> mapper p | Some m \<Rightarrow> Some m) of
        None \<Rightarrow> (Some MapperMissing, p)
      | Some mpr \<Rightarrow>
          (case (case title_given (sb_title a) of
                   None \<Rightarrow> None
                 | Some t \<Rightarrow> map_option (\<lambda>r. (t, r)) (scalar_bar_ranges p t)) of
             Some (t, rng0) \<Rightarrow> sb_merge t mpr rng0 p
           | None \<Rightarrow> sb_new rc ext a mpr p))"

text \<open>The defaults of the signature of \<^verbatim>\<open>add_scalar_bar\<close>.\<close>

definition sb_default :: sb_args where
  "sb_default =
     \<lparr> sb_title = None, sb_n_labels = 5, sb_color = None, sb_font_family = None,
       sb_mapper = None, sb_position_x = None, sb_position_y = None,
       sb_interactive = Some False \<rparr>"

text \<open>A script of calls of \<^verbatim>\<open>add_scalar_bar\<close>; it stops at the first exception.\<close>

fun add_scalar_bars ::
  "rcParams \<Rightarrow> externals \<Rightarrow> sb_args list \<Rightarrow> plotter \<Rightarrow> error option \<times> plotter" where
  "add_scalar_bars rc ext [] p = (None, p)"
| "add_scalar_bars rc ext (a # as) p =
     (case add_scalar_bar rc ext a p of
        (None, p') \<Rightarrow> add_scalar_bars rc ext as p'
      | (Some e, p') \<Rightarrow> (Some e, p'))"

subsection \<open>\<^verbatim>\<open>add_mesh\<close>\<close>

text \<open>
  The arguments of \<^verbatim>\<open>add_mesh\<close> for a single wrapped dataset (the branch for a
  \<^verbatim>\<open>MultiBlock\<close> calls \<^verbatim>\<open>add_mesh\<close> once for each block). \<open>am_clim\<close> and
  \<open>am_preference\<close> are the keyword arguments \<^verbatim>\<open>clim\<close> and \<^verbatim>\<open>preference\<close>. The title of
  \<open>am_scalar_bar_args\<close> is not used: \<^verbatim>\<open>add_mesh\<close> passes its own. The arguments that
  only set properties of the actor (edges, opacity, lighting, line width, label) are left
  out, as is the table of colors that the colormap fills.
\<close>

datatype scalars_arg = ScalarsName string | ScalarsArray ndarray

datatype rng_arg = RngScalar pyfloat | RngPair pyfloat pyfloat

record am_args =
  am_mesh :: mesh
  am_color :: "color_arg option"
  am_style :: "string option"
  am_scalars :: "scalars_arg option"
  am_rng :: "rng_arg option"
  am_clim :: "rng_arg option"
  am_stitle :: "string option"
  am_n_colors :: nat
  am_interpolate_before_map :: bool
  am_cmap :: "string option"
  am_scalar_bar_args :: sb_args
  am_texture :: "texture_arg option"
  am_edge_color :: "color_arg option"
  am_show_scalar_bar :: bool
  am_nan_color :: "color_arg option"
  am_preference :: association

text \<open>
  Lines 665 to 678: nothing was asked for (no scalars, no color, no texture). A texture of
  the mesh is preferred, then its active scalars when they are one-dimensional. The result
  is the texture, the scalars and the scalar title to go on with.
\<close>

definition am_default_scalars ::
  "am_args \<Rightarrow> texture_arg option \<times> scalars_arg option \<times> string option" where
  "am_default_scalars a =
     (if am_scalars a = None \<and> am_color a = None \<and> am_texture a = None then
        (if length (textures (am_mesh a)) > 0 then (Some (TextureBool True), None, am_stitle a)
         else case active_scalar (am_mesh a) of
                None \<Rightarrow> (None, None, am_stitle a)
              | Some arr \<Rightarrow>
                  if ndim arr \<noteq> 1 then (None, None, am_stitle a)
                  else (None, Some (ScalarsArray arr),
                        (case am_stitle a of
                           None \<Rightarrow> snd (active_scalar_info (am_mesh a))
                         | Some t \<Rightarrow> Some t)))
      else (am_texture a, am_scalars a, am_stitle a))"

text \<open>
  Lines 680 to 693: the texture. The result is the color to go on with (white when a
  texture is used and no color was given).
\<close>

definition am_texture_stage ::
  "externals \<Rightarrow> mesh \<Rightarrow> texture_arg option \<Rightarrow> color_arg option \<Rightarrow> error + color_arg option" where
  "am_texture_stage ext m texture color =
     (let texture =
            (case texture of
               Some (TextureBool True) \<Rightarrow>
                 if activate_texture ext m (TextureBool True) then Some TextureObject else None
             | Some (TextureName n) \<Rightarrow>
                 if activate_texture ext m (TextureName n) then Some TextureObject else None
             | t \<Rightarrow> t)
      in case texture of
           None \<Rightarrow> Inr color
         | Some (TextureBool False) \<Rightarrow> Inr color
         | Some TextureObject \<Rightarrow>
             if \<not> has_t_coords m then Inl NoTextureCoordinates
             else Inr (case color of None \<Rightarrow> Some (ColorName ''white'') | Some c \<Rightarrow> Some c)
         | Some _ \<Rightarrow> Inl InvalidTextureType)"

text \<open>
  Lines 714 to 718: an array of more than one dimension is flattened, and a boolean array
  is converted to floating point numbers.
\<close>

definition flat_float :: "ndarray \<Rightarrow> ndarray" where
  "flat_float arr =
     (let arr = (if ndim arr \<noteq> 1 then ravel arr else arr)
      in if is_bool arr then astype_float arr else arr)"

text \<open>
  Lines 699 to 718: the scalars as a flat numeric array and the title they are stored
  under; a name is looked up in the mesh and becomes the title.
\<close>

definition am_resolve_scalars ::
  "am_args \<Rightarrow> scalars_arg \<Rightarrow> string option \<Rightarrow> error + (ndarray \<times> string \<times> string option)" where
  "am_resolve_scalars a scalars stitle =
     (let title = (case stitle of None \<Rightarrow> ''Data'' | Some t \<Rightarrow> t) in
      case (case scalars of
              ScalarsName n \<Rightarrow>
                (case get_scalar (am_mesh a) n (am_preference a) of
                   Inl e \<Rightarrow> Inl e
                 | Inr arr \<Rightarrow> Inr (arr, n, (case stitle of None \<Rightarrow> Some n | Some t \<Rightarrow> Some t)))
            | ScalarsArray arr \<Rightarrow> Inr (arr, title, stitle)) of
        Inl e \<Rightarrow> Inl e
      | Inr (arr, title, stitle) \<Rightarrow> Inr (flat_float arr, title, stitle))"

text \<open>
  Lines 720 to 734: the array is bound to the points when its size is the number of
  points, else to the cells when its size is the number of cells, else the call raises.
  \<open>h\<close> is the handle of \<^verbatim>\<open>self.mapper\<close>.
\<close>

definition am_bind_scalars ::
  "am_args \<Rightarrow> handle \<Rightarrow> ndarray \<Rightarrow> string \<Rightarrow> plotter \<Rightarrow> error option \<times> plotter" where
  "am_bind_scalars a h scalars title p =
     (let m = am_mesh a in
      if array_size scalars = n_points m then
        (None, p\<lparr> mesh := Some (add_point_scalar scalars title True m),
                  heap := (heap p)(h := (heap p h)
                    \<lparr> mode := UsePointData, number_of_table_values := am_n_colors a,
                      interpolate_scalars_before_mapping :=
                        (if am_interpolate_before_map a then True
                         else interpolate_scalars_before_mapping (heap p h)) \<rparr>) \<rparr>)
      else if array_size scalars = n_cells m then
        (None, p\<lparr> mesh := Some (add_cell_scalar scalars title True m),
                  heap := (heap p)(h := (heap p h)
                    \<lparr> mode := UseCellData, number_of_table_values := am_n_colors a,
                      interpolate_scalars_before_mapping :=
                        (if am_interpolate_before_map a then True
                         else interpolate_scalars_before_mapping (heap p h)) \<rparr>) \<rparr>)
      else (Some (NotMatching (array_size scalars) (n_points m) (n_cells m)), p))"

text \<open>
  Lines 736 to 740: the range. Without a range it is the least and the greatest of the
  scalars that are numbers; a single number \<open>s\<close> stands for \<open>(-s, s)\<close>.
\<close>

definition am_resolve_rng :: "rng_arg option \<Rightarrow> ndarray \<Rightarrow> error + rng" where
  "am_resolve_rng rng scalars =
     (case rng of
        None \<Rightarrow>
          (case nanmin (elements scalars) of
             Inl e \<Rightarrow> Inl e
           | Inr lo \<Rightarrow> (case nanmax (elements scalars) of Inl e \<Rightarrow> Inl e | Inr hi \<Rightarrow> Inr (lo, hi)))
      | Some (RngScalar s) \<Rightarrow> Inr (neg s, s)
      | Some (RngPair lo hi) \<Rightarrow> Inr (lo, hi))"

text \<open>Lines 742 and 743: the range is given to the mapper unless both bounds are zero.\<close>

definition am_set_rng :: "handle \<Rightarrow> rng \<Rightarrow> plotter \<Rightarrow> plotter" where
  "am_set_rng h rng p =
     (if truthy (fst rng) \<or> truthy (snd rng)
      then p\<lparr> heap := (heap p)(h := SetScalarRange rng (heap p h)) \<rparr>
      else p)"

text \<open>Lines 748 to 758: the colormap; matplotlib may be missing and the name unknown.\<close>

definition am_cmap_check :: "externals \<Rightarrow> string option \<Rightarrow> error option" where
  "am_cmap_check ext cmap =
     (case cmap of
        None \<Rightarrow> None
      | Some c \<Rightarrow>
          if \<not> matplotlib_installed ext then Some CmapRequiresMatplotlib
          else if \<not> get_cmap ext c then Some UnknownCmap
          else None)"

text \<open>
  Lines 696 to 767, the scalar formatting: the result is the outcome, the plotter and the
  scalar title to go on with.
\<close>

definition am_scalar_formatting ::
  "rcParams \<Rightarrow> externals \<Rightarrow> am_args \<Rightarrow> handle \<Rightarrow> scalars_arg option \<Rightarrow> string option \<Rightarrow>
     rng_arg option \<Rightarrow> plotter \<Rightarrow> error option \<times> plotter \<times> string option" where
  "am_scalar_formatting rc ext a h scalars stitle rng p =
     (let cmap = (case am_cmap a of None \<Rightarrow> rc_cmap rc | Some c \<Rightarrow> Some c) in
      case scalars of
        None \<Rightarrow> (None, p\<lparr> heap := (heap p)(h := (heap p h)\<lparr> mode := UseFieldData \<rparr>) \<rparr>, stitle)
      | Some sc \<Rightarrow>
          (case am_resolve_scalars a sc stitle of
             Inl e \<Rightarrow> (Some e, p, stitle)
           | Inr (arr, title, stitle) \<Rightarrow>
               (case am_bind_scalars a h arr title p of
                  (Some e, p1) \<Rightarrow> (Some e, p1, stitle)
                | (None, p1) \<Rightarrow>
                    (case am_resolve_rng rng arr of
                       Inl e \<Rightarrow> (Some e, p1, stitle)
                     | Inr r \<Rightarrow>
                         let p2 = am_set_rng h r p1
                         in (am_cmap_check ext cmap, p2, stitle)))))"

text \<open>
  Lines 769 to 796: the style and the colors of the actor; only their exceptions matter
  to the plotter.
\<close>

definition am_style_and_colors ::
  "rcParams \<Rightarrow> externals \<Rightarrow> am_args \<Rightarrow> color_arg option \<Rightarrow> error option" where
  "am_style_and_colors rc ext a color =
     (let style = lower (case am_style a of None \<Rightarrow> ''surface''
                         | Some st \<Rightarrow> if st = [] then ''surface'' else st)
      in if style \<noteq> ''wireframe'' \<and> style \<noteq> ''points'' \<and> style \<noteq> ''surface''
         then Some InvalidStyle
         else let color = (if style = ''wireframe'' \<and> color = None
                           then rc_outline_color rc else color)
              in case parse_color rc (string_to_rgb ext) color of
                   Inl e \<Rightarrow> Some e
                 | Inr rgb \<Rightarrow>
                     (case parse_color rc (string_to_rgb ext) (am_edge_color a) of
                        Inl e \<Rightarrow> Some e
                      | Inr edge_rgb \<Rightarrow> None))"

text \<open>
  Lines 654 to 659, the main values: \<^verbatim>\<open>self.mesh\<close> is the mesh and \<^verbatim>\<open>self.mapper\<close> a new
  mapper, which gets the name of the scalars when they are given by name.
\<close>

definition am_set_main_values :: "am_args \<Rightarrow> plotter \<Rightarrow> plotter" where
  "am_set_main_values a p =
     (let h = next_handle p;
          m0 = vtkDataSetMapper
                 \<lparr> array_name := (case am_scalars a of
                                    Some (ScalarsName n) \<Rightarrow> Some n
                                  | _ \<Rightarrow> None) \<rparr>
      in p\<lparr> mesh := Some (am_mesh a), mapper := Some h,
            heap := (heap p)(h := m0), next_handle := Suc h \<rparr>)"

text \<open>
  \<^verbatim>\<open>add_mesh\<close>: the range is \<^verbatim>\<open>rng\<close> or else \<^verbatim>\<open>clim\<close>; the color of the
  not-a-numbers is parsed; the main values are set; then come the default scalars, the
  texture, the scalar formatting, the style and the colors, and at last the scalar bar,
  when there is a scalar title and \<^verbatim>\<open>show_scalar_bar\<close> is set.
\<close>

definition add_mesh ::
  "rcParams \<Rightarrow> externals \<Rightarrow> am_args \<Rightarrow> plotter \<Rightarrow> error option \<times> plotter" where
  "add_mesh rc ext a p =
     (let rng = (case am_rng a of None \<Rightarrow> am_clim a | Some r \<Rightarrow> Some r);
          nan_color = (case am_nan_color a of None \<Rightarrow> rc_nan_color rc | Some c \<Rightarrow> Some c)
      in case parse_color rc (string_to_rgb ext) nan_color of
           Inl e \<Rightarrow> (Some e, p)
         | Inr nan_rgb \<Rightarrow>
             let h = next_handle p;
                 p1 = am_set_main_values a p
             in case am_default_scalars a of
                  (texture, scalars, stitle) \<Rightarrow>
                    (case am_texture_stage ext (am_mesh a) texture (am_color a) of
                       Inl e \<Rightarrow> (Some e, p1)
                     | Inr color \<Rightarrow>
                         (case am_scalar_formatting rc ext a h scalars stitle rng p1 of
                            (Some e, p2, stitle) \<Rightarrow> (Some e, p2)
                          | (None, p2, stitle) \<Rightarrow>
                              (case am_style_and_colors rc ext a color of
                                 Some e \<Rightarrow> (Some e, p2)
                               | None \<Rightarrow>
                                   (case stitle of
                                      None \<Rightarrow> (None, p2)
                                    | Some t \<Rightarrow>
                                        if am_show_scalar_bar a
                                        then add_scalar_bar rc ext
                                               ((am_scalar_bar_args a)\<lparr> sb_title := Some t \<rparr>) p2
                                        else (None, p2))))))"

subsection \<open>Sessions\<close>

text \<open>
  The invariant of the slot pool in the words of the specification: a slot is held by at
  most one colorbar entry, and the number of allocated slots (the capacity minus the size
  of the free pool) is the number of colorbar entries. An entry is a title with a stored
  range; the slot it holds is the one recorded in the lookup.
\<close>

definition slot_pool_invariant :: "plotter \<Rightarrow> bool" where
  "slot_pool_invariant p \<longleftrightarrow>
     inj_on (scalar_bar_slot_lookup p) (dom (scalar_bar_slot_lookup p))
     \<and> MAX_N_COLOR_BARS - card (scalar_bar_slots p) = card (dom (scalar_bar_ranges p))"

text \<open>
  The states of a plotter that is used for titled colorbars at automatic positions only:
  it starts as the constructor leaves it, may be cleared and closed, gets meshes (which
  replace \<^verbatim>\<open>self.mesh\<close> and \<^verbatim>\<open>self.mapper\<close> and change the mappers, here any change of
  these attributes) and gets scalar bars by calls of \<^verbatim>\<open>add_scalar_bar\<close> that return
  normally, have a non-empty title and leave a position to be chosen.
\<close>

inductive titled_session :: "plotter \<Rightarrow> bool" where
  started: "init shp = Inr p \<Longrightarrow> titled_session p"
| cleared: "titled_session p \<Longrightarrow> titled_session (clear p)"
| closed: "titled_session p \<Longrightarrow> titled_session (close p)"
| meshed: "titled_session p \<Longrightarrow>
     titled_session (p\<lparr> mesh := m, mapper := h, heap := hp, next_handle := n \<rparr>)"
| bar: "titled_session p \<Longrightarrow> title_given (sb_title a) \<noteq> None \<Longrightarrow>
     sb_position_x a = None \<or> sb_position_y a = None \<Longrightarrow>
     add_scalar_bar rc ext a p = (None, p') \<Longrightarrow> titled_session p'"

subsection \<open>Example sessions\<close>

text \<open>
  Concrete arguments and sessions, for the closed statements below. The engine of the
  examples knows three color names and no texture and has matplotlib with every
  colormap. \<open>titled t m\<close> is the call \<^verbatim>\<open>add_scalar_bar(t, mapper=m)\<close>,
  \<open>placed t m x y\<close> the call
  \<^verbatim>\<open>add_scalar_bar(t, mapper=m, position_x=x, position_y=y)\<close>, and \<open>merge_bars a hs\<close>
  repeats the call \<open>a\<close> once for each mapper of \<open>hs\<close>.
\<close>

definition engine_example :: externals where
  "engine_example =
     \<lparr> string_to_rgb = [''white'' \<mapsto> [1, 1, 1], ''black'' \<mapsto> [0, 0, 0],
                         ''darkgray'' \<mapsto> [2 / 3, 2 / 3, 2 / 3]],
       activate_texture = (\<lambda>_ _. False),
       matplotlib_installed = True, get_cmap = (\<lambda>_. True) \<rparr>"

definition titled :: "string \<Rightarrow> handle \<Rightarrow> sb_args" where
  "titled t m = sb_default\<lparr> sb_title := Some t, sb_mapper := Some m \<rparr>"

definition placed :: "string \<Rightarrow> handle \<Rightarrow> real \<Rightarrow> real \<Rightarrow> sb_args" where
  "placed t m x y =
     sb_default\<lparr> sb_title := Some t, sb_mapper := Some m,
                 sb_position_x := Some x, sb_position_y := Some y \<rparr>"

definition titled_bars :: "string list \<Rightarrow> handle \<Rightarrow> sb_args list" where
  "titled_bars ts m = map (\<lambda>t. titled t m) ts"

definition nine_titles :: "string list" where
  "nine_titles = [''a'', ''b'', ''c'', ''d'', ''e'', ''f'', ''g'', ''h'', ''i'']"

definition ten_titles :: "string list" where
  "ten_titles = nine_titles @ [''j'']"

definition full_session :: plotter where
  "full_session =
     snd (add_scalar_bars default_rcParams engine_example (titled_bars ten_titles 0)
            (init_state (1, 1)))"

definition three_mappers :: "handle \<Rightarrow> vtk_mapper" where
  "three_mappers h =
     vtkDataSetMapper\<lparr> scalar_range :=
       (if h = 0 then (Val 0, Val 5) else if h = 1 then (Val (- 2), Val 3) else (Val 1, Val 2)) \<rparr>"

definition shared_bar_session :: plotter where
  "shared_bar_session =
     snd (add_scalar_bar default_rcParams engine_example (titled ''T'' 0)
            ((init_state (1, 1))\<lparr> heap := three_mappers \<rparr>))"

definition merge_bars :: "sb_args \<Rightarrow> handle list \<Rightarrow> sb_args list" where
  "merge_bars a hs = map (\<lambda>m. a\<lparr> sb_mapper := Some m \<rparr>) hs"

text \<open>
  Concrete meshes and calls of \<^verbatim>\<open>add_mesh\<close>: a mesh of 8 points and 6 cells without
  arrays, the same mesh with the active point array "temp", and \<open>am_default m\<close>, the call
  \<^verbatim>\<open>add_mesh(m)\<close> with the defaults of the signature.
\<close>

definition cube_mesh :: mesh where
  "cube_mesh =
     \<lparr> n_points = 8, n_cells = 6, point_arrays = Map.empty, cell_arrays = Map.empty,
       active_scalar_info = (PointData, None), textures = [], has_t_coords = False \<rparr>"

definition sample_array :: ndarray where
  "sample_array = NumArray 1 [Val 1, NaN, Val 4, Val 2, NaN, Val 3, Val 0, Val 2]"

definition mask_array :: ndarray where
  "mask_array = BoolArray 1 [True, False, True, True, False, False, True, False]"

definition constant_array :: "nat \<Rightarrow> real \<Rightarrow> ndarray" where
  "constant_array n v = NumArray 1 (replicate n (Val v))"

definition temp_mesh :: mesh where
  "temp_mesh =
     cube_mesh\<lparr> point_arrays := [''temp'' \<mapsto> sample_array],
                active_scalar_info := (PointData, Some ''temp'') \<rparr>"

definition am_default :: "mesh \<Rightarrow> am_args" where
  "am_default m =
     \<lparr> am_mesh = m, am_color = None, am_style = None, am_scalars = None, am_rng = None,
       am_clim = None, am_stitle = None, am_n_colors = 256, am_interpolate_before_map = False,
       am_cmap = None, am_scalar_bar_args = sb_default, am_texture = None,
       am_edge_color = Some (ColorName ''black''), am_show_scalar_bar = True,
       am_nan_color = None, am_preference = CellData \<rparr>"

definition with_scalars :: "mesh \<Rightarrow> ndarray \<Rightarrow> rng_arg option \<Rightarrow> am_args" where
  "with_scalars m arr rng = (am_default m)\<lparr> am_scalars := Some (ScalarsArray arr), am_rng := rng \<rparr>"

definition with_color :: "mesh \<Rightarrow> real list \<Rightarrow> am_args" where
  "with_color m rgb = (am_default m)\<lparr> am_color := Some (ColorSeq rgb) \<rparr>"

text \<open>
  What the calls for titled bars at automatic positions keep: the free slots are among
  \<open>0..9\<close>, a title has a slot exactly when it has a range, the free slots and the titles
  are ten together, no slot is recorded twice, and no recorded slot is above a free one.
\<close>

definition pool_inv :: "plotter \<Rightarrow> bool" where
  "pool_inv p \<longleftrightarrow>
     scalar_bar_slots p \<subseteq> {0..<MAX_N_COLOR_BARS}
     \<and> finite (dom (scalar_bar_ranges p))
     \<and> card (scalar_bar_slots p) + card (dom (scalar_bar_ranges p)) = MAX_N_COLOR_BARS
     \<and> dom (scalar_bar_slot_lookup p) = dom (scalar_bar_ranges p)
     \<and> inj_on (scalar_bar_slot_lookup p) (dom (scalar_bar_ranges p))
     \<and> (\<forall>t s. scalar_bar_slot_lookup p t = Some s \<longrightarrow> (\<forall>x\<in>scalar_bar_slots p. s \<le> x))"

section \<open>Properties of the font and color parsing\<close>

text \<open>
  C9. Font-family resolution: for every name, \<^verbatim>\<open>parse_font_family\<close> returns the font
  constant of the engine exactly when the lower-cased name is one of "courier", "times",
  "arial", and raises the invalid-font exception for every other name. Two names with
  the same lower-cased form get the same result, so the acceptance does not depend on
  the case of the letters.
\<close>

theorem parse_font_family_accepts:
  "parse_font_family name =
     (if lower name = ''courier'' then Inr VTK_COURIER
      else if lower name = ''times'' then Inr VTK_TIMES
      else if lower name = ''arial'' then Inr VTK_ARIAL
      else Inl InvalidFont)
   \<and> ((\<exists>f. parse_font_family name = Inr f) \<longleftrightarrow> lower name \<in> {''courier'', ''times'', ''arial''})
   \<and> (lower name \<notin> {''courier'', ''times'', ''arial''} \<longrightarrow> parse_font_family name = Inl InvalidFont)
   \<and> (lower name' = lower name \<longrightarrow> parse_font_family name' = parse_font_family name)"
  by (simp add: parse_font_family_def FONT_KEYS_def Let_def)

theorem parse_font_family_accepts_witness:
  "lower ''TIMES'' = lower ''Times''
   \<and> parse_font_family ''TIMES'' = Inr VTK_TIMES
   \<and> parse_font_family ''Times'' = Inr VTK_TIMES
   \<and> lower ''Helvetica'' \<notin> {''courier'', ''times'', ''arial''}
   \<and> parse_font_family ''Helvetica'' = Inl InvalidFont"
proof -
  have l1: "lower ''TIMES'' = ''times''" by code_simp
  have l2: "lower ''Times'' = ''times''" by code_simp
  have l3: "lower ''Helvetica'' = ''helvetica''" by code_simp
  show ?thesis
    using parse_font_family_accepts [of "''Times''" "''TIMES''"]
      parse_font_family_accepts [of "''Helvetica''" "''Helvetica''"]
    by (simp add: l1 l2 l3)
qed

section \<open>Properties of the scalar bars\<close>

subsection \<open>The paths of \<^verbatim>\<open>add_scalar_bar\<close>\<close>

lemma fold_SetScalarRange:
  "fold (\<lambda>m h. h(m := SetScalarRange r (h m))) ms h0 =
     (\<lambda>x. if x \<in> set ms then SetScalarRange r (h0 x) else h0 x)"
  by (induction ms arbitrary: h0) (auto simp: fun_eq_iff SetScalarRange_def)

lemma parse_font_family_cases:
  "parse_font_family name =
     (if lower name = ''courier'' then Inr VTK_COURIER
      else if lower name = ''times'' then Inr VTK_TIMES
      else if lower name = ''arial'' then Inr VTK_ARIAL
      else Inl InvalidFont)"
  by (simp add: parse_font_family_def FONT_KEYS_def Let_def)

lemma parse_font_family_error: "parse_font_family name = Inl e \<Longrightarrow> e = InvalidFont"
  by (simp add: parse_font_family_cases split: if_splits)

lemma parse_color_error:
  "parse_color rc f c = Inl e \<Longrightarrow> e = UnknownColorName \<or> e = InvalidColor"
  by (auto simp: parse_color_def Let_def split: color_arg.splits option.splits if_splits)

lemma add_scalar_bar_existing:
  assumes "title_given (sb_title a) = Some t" and "scalar_bar_ranges p t = Some r0"
    and "(case sb_mapper a of None \<Rightarrow> mapper p | Some m \<Rightarrow> Some m) = Some m"
  shows "add_scalar_bar rc ext a p = sb_merge t m r0 p"
  using assms by (simp add: add_scalar_bar_def)

lemma add_scalar_bar_no_mapper:
  assumes "(case sb_mapper a of None \<Rightarrow> mapper p | Some m \<Rightarrow> Some m) = None"
  shows "add_scalar_bar rc ext a p = (Some MapperMissing, p)"
  using assms by (simp add: add_scalar_bar_def)

lemma add_scalar_bar_new:
  assumes "title_given (sb_title a) = None \<or>
           (\<exists>t. title_given (sb_title a) = Some t \<and> scalar_bar_ranges p t = None)"
    and "(case sb_mapper a of None \<Rightarrow> mapper p | Some m \<Rightarrow> Some m) = Some m"
  shows "add_scalar_bar rc ext a p = sb_new rc ext a m p"
  using assms by (auto simp add: add_scalar_bar_def sb_new_def Let_def)

lemma add_scalar_bar_cases:
  obtains (no_mapper) "(case sb_mapper a of None \<Rightarrow> mapper p | Some m \<Rightarrow> Some m) = None"
      "add_scalar_bar rc ext a p = (Some MapperMissing, p)"
  | (existing) t r0 m where "title_given (sb_title a) = Some t" "scalar_bar_ranges p t = Some r0"
      "(case sb_mapper a of None \<Rightarrow> mapper p | Some m \<Rightarrow> Some m) = Some m"
      "add_scalar_bar rc ext a p = sb_merge t m r0 p"
  | (new) m where "title_given (sb_title a) = None \<or>
           (\<exists>t. title_given (sb_title a) = Some t \<and> scalar_bar_ranges p t = None)"
      "(case sb_mapper a of None \<Rightarrow> mapper p | Some m \<Rightarrow> Some m) = Some m"
      "add_scalar_bar rc ext a p = sb_new rc ext a m p"
proof (cases "case sb_mapper a of None \<Rightarrow> mapper p | Some m \<Rightarrow> Some m")
  case None
  then show ?thesis using no_mapper add_scalar_bar_no_mapper by blast
next
  case (Some m)
  show ?thesis
  proof (cases "title_given (sb_title a)")
    case None
    then show ?thesis using new [of m] Some add_scalar_bar_new [of a p m] by blast
  next
    case t: (Some t)
    show ?thesis
    proof (cases "scalar_bar_ranges p t")
      case None
      then show ?thesis using new [of m] Some t add_scalar_bar_new [of a p m] by blast
    next
      case r: (Some r0)
      then show ?thesis using existing [of t r0 m] Some t add_scalar_bar_existing [of a t p r0 m] by blast
    qed
  qed
qed

lemma sb_merge_slots:
  "scalar_bar_slots (snd (sb_merge t m r0 p)) = scalar_bar_slots p"
  "scalar_bar_slot_lookup (snd (sb_merge t m r0 p)) = scalar_bar_slot_lookup p"
  by (simp_all add: sb_merge_def Let_def split: option.splits)

lemma sb_merge_outcome:
  "fst (sb_merge t m r0 p) = (if scalar_bar_mappers p t = None then Some KeyError else None)"
  by (simp add: sb_merge_def Let_def split: option.splits)

lemma sb_merge_dom:
  "scalar_bar_ranges p t = Some r0 \<Longrightarrow>
     dom (scalar_bar_ranges (snd (sb_merge t m r0 p))) = dom (scalar_bar_ranges p)"
  by (auto simp add: sb_merge_def Let_def split: option.splits)

lemma sb_set_title_slots:
  "scalar_bar_slots (snd (sb_set_title ff ti m p)) = scalar_bar_slots p"
  by (simp add: sb_set_title_def Let_def split: option.splits sum.splits)

lemma sb_set_title_error:
  "fst (sb_set_title ff ti m p) = Some e \<Longrightarrow> e = MinOfEmpty \<or> e = InvalidFont"
  by (auto simp add: sb_set_title_def Let_def split: option.splits sum.splits if_splits
      dest: parse_font_family_error)

lemma sb_interactive_check_error:
  "sb_interactive_check a p = Some e \<Longrightarrow> e = NameErrorShape \<or> e = InteractiveMultiRenderer"
  by (auto simp: sb_interactive_check_def split: option.splits if_splits)

lemma sb_new_state:
  "snd (sb_new rc ext a m p) = snd (sb_choose_location a p) \<or>
   snd (sb_new rc ext a m p) =
     snd (sb_set_title (case sb_font_family a of None \<Rightarrow> rc_font_family rc | Some f \<Rightarrow> f)
            (sb_title a) m (snd (sb_choose_location a p)))"
  by (cases "sb_choose_location a p")
     (simp add: sb_new_def Let_def split: option.splits sum.splits prod.splits)

lemma sb_choose_location_error:
  "sb_choose_location a p = (Some e, p1) \<Longrightarrow> e = MaxColorBars \<and> p1 = p"
  by (auto simp: sb_choose_location_def Let_def split: if_splits)

lemma sb_new_error:
  assumes "fst (sb_new rc ext a m p) = Some e"
  shows "e \<in> {MaxColorBars, UnknownColorName, InvalidColor, InvalidFont, MinOfEmpty,
          NameErrorShape, InteractiveMultiRenderer}"
proof -
  define ff where "ff = (case sb_font_family a of None \<Rightarrow> rc_font_family rc | Some f \<Rightarrow> f)"
  obtain e1 p1 where loc: "sb_choose_location a p = (e1, p1)"
    by (cases "sb_choose_location a p")
  obtain e2 p2 where st: "sb_set_title ff (sb_title a) m p1 = (e2, p2)"
    by (cases "sb_set_title ff (sb_title a) m p1")
  have e2: "e2 = Some e \<Longrightarrow> e = MinOfEmpty \<or> e = InvalidFont"
    using sb_set_title_error [of ff "sb_title a" m p1 e] st by simp
  show ?thesis
    using assms loc st e2
    by (auto simp: sb_new_def Let_def ff_def [symmetric]
        split: option.splits sum.splits if_splits
        dest!: parse_color_error parse_font_family_error sb_interactive_check_error
          sb_choose_location_error)
qed

lemma sb_new_max_color_bars:
  assumes "fst (sb_new rc ext a m p) = Some MaxColorBars"
  shows "sb_choose_location a p = (Some MaxColorBars, p)"
proof -
  define ff where "ff = (case sb_font_family a of None \<Rightarrow> rc_font_family rc | Some f \<Rightarrow> f)"
  obtain e1 p1 where loc: "sb_choose_location a p = (e1, p1)"
    by (cases "sb_choose_location a p")
  obtain e2 p2 where st: "sb_set_title ff (sb_title a) m p1 = (e2, p2)"
    by (cases "sb_set_title ff (sb_title a) m p1")
  have e2: "e2 = Some e \<Longrightarrow> e = MinOfEmpty \<or> e = InvalidFont" for e
    using sb_set_title_error [of ff "sb_title a" m p1 e] st by simp
  show ?thesis
    using assms loc st e2
    by (auto simp: sb_new_def Let_def ff_def [symmetric]
        split: option.splits sum.splits if_splits
        dest!: parse_color_error parse_font_family_error sb_interactive_check_error
          sb_choose_location_error)
qed

lemma sb_new_explicit_slots:
  assumes "sb_position_x a = Some x" and "sb_position_y a = Some y"
  shows "scalar_bar_slots (snd (sb_new rc ext a m p)) = scalar_bar_slots p"
proof -
  have loc: "sb_choose_location a p = (None, p)"
    using assms by (simp add: sb_choose_location_def)
  show ?thesis
    using sb_new_state [of rc ext a m p] unfolding loc
    by (auto simp: sb_set_title_slots)
qed

lemma Min_nat_interval: "k < n \<Longrightarrow> Min {k..<n} = (k::nat)"
  by (rule Min_eqI) auto

lemma nat_interval_minus_least: "{k..<n} - {k} = {Suc k..<(n::nat)}"
  by auto

lemma title_given_Some [simp]: "t \<noteq> [] \<Longrightarrow> title_given (Some t) = Some t"
  by simp

lemma title_given_eq_Some: "title_given ti = Some t \<longleftrightarrow> ti = Some t \<and> t \<noteq> []"
  by (cases ti) auto

text \<open>A call for a title without a range, at a position to be chosen.\<close>

lemma sb_new_titled_auto:
  assumes t: "title_given (sb_title a) = Some t"
    and auto: "sb_position_x a = None \<or> sb_position_y a = None"
    and pool: "scalar_bar_slots p \<noteq> {}"
    and color: "parse_color rc (string_to_rgb ext)
             (case sb_color a of None \<Rightarrow> rc_font_color rc | Some c \<Rightarrow> Some c) = Inr rgb"
    and font: "parse_font_family
             (case sb_font_family a of None \<Rightarrow> rc_font_family rc | Some f \<Rightarrow> f) = Inr f"
  shows "sb_new rc ext a m p =
     (let pool' = scalar_bar_slots p - {Min (scalar_bar_slots p)};
          p2 = p\<lparr> scalar_bar_slots := pool',
                  scalar_bar_ranges := (scalar_bar_ranges p)(t \<mapsto> scalar_range (heap p m)),
                  scalar_bar_mappers := (scalar_bar_mappers p)(t \<mapsto> [m]) \<rparr>
      in if pool' = {} then (Some MinOfEmpty, p2)
         else (sb_interactive_check a p,
               p2\<lparr> scalar_bar_slot_lookup := (scalar_bar_slot_lookup p)(t \<mapsto> Min pool') \<rparr>))"
  using assms
  by (simp add: sb_new_def Let_def sb_choose_location_def sb_set_title_def sb_interactive_check_def
      split: option.splits)

lemma sb_new_returns:
  assumes t: "title_given (sb_title a) = Some t"
    and auto: "sb_position_x a = None \<or> sb_position_y a = None"
    and ret: "sb_new rc ext a m p = (None, p')"
  shows "scalar_bar_slots p \<noteq> {} \<and> scalar_bar_slots p - {Min (scalar_bar_slots p)} \<noteq> {} \<and>
     p' = p\<lparr> scalar_bar_slots := scalar_bar_slots p - {Min (scalar_bar_slots p)},
             scalar_bar_ranges := (scalar_bar_ranges p)(t \<mapsto> scalar_range (heap p m)),
             scalar_bar_mappers := (scalar_bar_mappers p)(t \<mapsto> [m]),
             scalar_bar_slot_lookup := (scalar_bar_slot_lookup p)
                (t \<mapsto> Min (scalar_bar_slots p - {Min (scalar_bar_slots p)})) \<rparr>"
  using assms
  by (auto simp add: sb_new_def Let_def sb_choose_location_def sb_set_title_def
      split: if_splits sum.splits option.splits prod.splits)

lemma add_scalar_bars_append:
  "add_scalar_bars rc ext (xs @ ys) p =
     (case add_scalar_bars rc ext xs p of
        (None, p') \<Rightarrow> add_scalar_bars rc ext ys p'
      | (Some e, p') \<Rightarrow> (Some e, p'))"
  by (induction xs arbitrary: p) (auto split: prod.splits option.splits)

lemma add_scalar_bar_titled:
  assumes "t \<noteq> []" and "scalar_bar_ranges p t = None"
  shows "add_scalar_bar rc ext (titled t m) p = sb_new rc ext (titled t m) m p"
  using assms by (intro add_scalar_bar_new) (simp_all add: titled_def)

lemma titled_step:
  assumes t: "t \<noteq> []" and r: "scalar_bar_ranges p t = None"
    and pool: "scalar_bar_slots p = {k..<MAX_N_COLOR_BARS}" and k: "k < MAX_N_COLOR_BARS"
    and color: "parse_color rc (string_to_rgb ext) (rc_font_color rc) = Inr rgb"
    and font: "parse_font_family (rc_font_family rc) = Inr f"
  shows "add_scalar_bar rc ext (titled t m) p =
     (let p2 = p\<lparr> scalar_bar_slots := {Suc k..<MAX_N_COLOR_BARS},
                  scalar_bar_ranges := (scalar_bar_ranges p)(t \<mapsto> scalar_range (heap p m)),
                  scalar_bar_mappers := (scalar_bar_mappers p)(t \<mapsto> [m]) \<rparr>
      in if Suc k = MAX_N_COLOR_BARS then (Some MinOfEmpty, p2)
         else (None, p2\<lparr> scalar_bar_slot_lookup := (scalar_bar_slot_lookup p)(t \<mapsto> Suc k) \<rparr>))"
proof -
  have ne: "scalar_bar_slots p \<noteq> {}" using pool k by simp
  have mn: "Min (scalar_bar_slots p) = k" using pool k by (simp add: Min_nat_interval)
  have rest: "scalar_bar_slots p - {Min (scalar_bar_slots p)} = {Suc k..<MAX_N_COLOR_BARS}"
    unfolding pool using k by (simp add: Min_nat_interval nat_interval_minus_least)
  have new: "sb_new rc ext (titled t m) m p =
     (let pool' = scalar_bar_slots p - {Min (scalar_bar_slots p)};
          p2 = p\<lparr> scalar_bar_slots := pool',
                  scalar_bar_ranges := (scalar_bar_ranges p)(t \<mapsto> scalar_range (heap p m)),
                  scalar_bar_mappers := (scalar_bar_mappers p)(t \<mapsto> [m]) \<rparr>
      in if pool' = {} then (Some MinOfEmpty, p2)
         else (sb_interactive_check (titled t m) p,
               p2\<lparr> scalar_bar_slot_lookup := (scalar_bar_slot_lookup p)(t \<mapsto> Min pool') \<rparr>))"
    by (rule sb_new_titled_auto [where rgb = rgb and f = f])
       (use t ne color font in \<open>simp_all add: titled_def sb_default_def\<close>)
  have ic: "sb_interactive_check (titled t m) p = None"
    by (simp add: sb_interactive_check_def titled_def sb_default_def)
  show ?thesis
    unfolding add_scalar_bar_titled [OF t r] new rest ic Let_def
    using k by (auto simp: Min_nat_interval)
qed

lemma titled_script:
  assumes "distinct ts" and "[] \<notin> set ts" and "\<forall>t\<in>set ts. scalar_bar_ranges p t = None"
    and "scalar_bar_slots p = {k..<MAX_N_COLOR_BARS}" and "k + length ts < MAX_N_COLOR_BARS"
    and color: "parse_color rc (string_to_rgb ext) (rc_font_color rc) = Inr rgb"
    and font: "parse_font_family (rc_font_family rc) = Inr f"
  shows "\<exists>p'. add_scalar_bars rc ext (map (\<lambda>t. titled t m) ts) p = (None, p')
     \<and> scalar_bar_slots p' = {k + length ts..<MAX_N_COLOR_BARS}
     \<and> dom (scalar_bar_ranges p') = dom (scalar_bar_ranges p) \<union> set ts
     \<and> heap p' = heap p \<and> shape p' = shape p \<and> mapper p' = mapper p"
  using assms(1-5)
proof (induction ts arbitrary: p k)
  case Nil
  then show ?case by simp
next
  case (Cons t ts)
  let ?p1 = "p\<lparr> scalar_bar_slots := {Suc k..<MAX_N_COLOR_BARS},
                  scalar_bar_ranges := (scalar_bar_ranges p)(t \<mapsto> scalar_range (heap p m)),
                  scalar_bar_mappers := (scalar_bar_mappers p)(t \<mapsto> [m]),
                  scalar_bar_slot_lookup := (scalar_bar_slot_lookup p)(t \<mapsto> Suc k) \<rparr>"
  have t: "t \<noteq> []" and r: "scalar_bar_ranges p t = None" and k: "k < MAX_N_COLOR_BARS"
    and k': "Suc k \<noteq> MAX_N_COLOR_BARS"
    using Cons.prems by auto
  have step: "add_scalar_bar rc ext (titled t m) p = (None, ?p1)"
    using titled_step [OF t r Cons.prems(4) k color font, where m = m] k'
    by (simp add: Let_def)
  have "\<exists>p'. add_scalar_bars rc ext (map (\<lambda>t. titled t m) ts) ?p1 = (None, p')
     \<and> scalar_bar_slots p' = {Suc k + length ts..<MAX_N_COLOR_BARS}
     \<and> dom (scalar_bar_ranges p') = dom (scalar_bar_ranges ?p1) \<union> set ts
     \<and> heap p' = heap ?p1 \<and> shape p' = shape ?p1 \<and> mapper p' = mapper ?p1"
    by (rule Cons.IH) (use Cons.prems in auto)
  then show ?case
    using step by auto
qed

lemma default_color: "parse_color default_rcParams (string_to_rgb ext) (rc_font_color default_rcParams) = Inr [1, 1, 1]"
  by (simp add: parse_color_def default_rcParams_def)

lemma lower_courier: "lower ''courier'' = ''courier''"
  by code_simp

lemma default_font: "parse_font_family (rc_font_family default_rcParams) = Inr VTK_COURIER"
  by (simp add: parse_font_family_cases default_rcParams_def lower_courier)

lemma init_state_fields [simp]:
  "scalar_bar_slots (init_state shp) = {0..<MAX_N_COLOR_BARS}"
  "scalar_bar_ranges (init_state shp) = Map.empty"
  "scalar_bar_slot_lookup (init_state shp) = Map.empty"
  "scalar_bar_mappers (init_state shp) = Map.empty"
  "shape (init_state shp) = shp"
  "mapper (init_state shp) = None"
  "heap (init_state shp) = (\<lambda>_. vtkDataSetMapper)"
  by (simp_all add: init_state_def)

lemma clear_fields [simp]:
  "scalar_bar_slots (clear p) = {0..<MAX_N_COLOR_BARS}"
  "scalar_bar_ranges (clear p) = Map.empty"
  "scalar_bar_slot_lookup (clear p) = Map.empty"
  "scalar_bar_mappers (clear p) = Map.empty"
  "shape (clear p) = shape p"
  "mapper (clear p) = mapper p"
  "heap (clear p) = heap p"
  by (simp_all add: clear_def)

lemma sb_new_pool_empty:
  assumes "sb_position_x a = None \<or> sb_position_y a = None" and "scalar_bar_slots p = {}"
  shows "sb_new rc ext a m p = (Some MaxColorBars, p)"
  using assms by (simp add: sb_new_def sb_choose_location_def Let_def)


subsection \<open>Merging ranges\<close>

lemma sb_merge_finite:
  assumes "scalar_bar_mappers p t = Some ms" and "scalar_range (heap p m) = (Val nlo, Val nhi)"
  shows "sb_merge t m (Val lo, Val hi) p =
     (None, p\<lparr> heap := (\<lambda>x. if x \<in> set ms \<union> {m}
                             then SetScalarRange (Val (min lo nlo), Val (max hi nhi)) (heap p x)
                             else heap p x),
               scalar_bar_mappers := (scalar_bar_mappers p)(t \<mapsto> ms @ [m]),
               scalar_bar_ranges := (scalar_bar_ranges p)(t \<mapsto> (Val (min lo nlo), Val (max hi nhi))) \<rparr>)"
proof -
  have lo: "(if nlo < lo then nlo else lo) = min lo nlo" by (simp add: min_def)
  have hi: "(if hi < nhi then nhi else hi) = max hi nhi" by (simp add: max_def)
  have hp: "(\<lambda>x. if x \<in> set ms then SetScalarRange r (heap p x) else heap p x)
              (m := SetScalarRange r (if m \<in> set ms then SetScalarRange r (heap p m) else heap p m))
            = (\<lambda>x. if x \<in> set ms \<union> {m} then SetScalarRange r (heap p x) else heap p x)" for r
    by (auto simp: fun_eq_iff SetScalarRange_def)
  show ?thesis
    using assms
    by (simp add: sb_merge_def Let_def fold_SetScalarRange lo hi hp if_distrib [of Val] cong: if_cong)
qed

lemma sb_merge_range_mono:
  assumes "scalar_bar_ranges p u = Some (Val lo, Val hi)"
  shows "\<exists>lo' hi'. scalar_bar_ranges (snd (sb_merge t m (the (scalar_bar_ranges p t)) p)) u
            = Some (Val lo', Val hi') \<and> lo' \<le> lo \<and> hi \<le> hi'"
proof (cases "u = t")
  case False
  with assms show ?thesis
    by (auto simp: sb_merge_def Let_def split: option.splits)
next
  case True
  obtain a b where nr: "scalar_range (heap p m) = (a, b)" by (cases "scalar_range (heap p m)")
  show ?thesis
    using assms True nr
    by (cases a; cases b) (auto simp: sb_merge_def Let_def split: option.splits)
qed

lemma sb_choose_location_ranges:
  "scalar_bar_ranges (snd (sb_choose_location a p)) = scalar_bar_ranges p"
  by (simp add: sb_choose_location_def Let_def)

lemma sb_set_title_ranges_other:
  "title_given ti \<noteq> Some u \<Longrightarrow>
     scalar_bar_ranges (snd (sb_set_title ff ti m p)) u = scalar_bar_ranges p u"
  by (auto simp: sb_set_title_def Let_def split: option.splits sum.splits)

lemma sb_new_ranges_other:
  assumes "title_given (sb_title a) \<noteq> Some u"
  shows "scalar_bar_ranges (snd (sb_new rc ext a m p)) u = scalar_bar_ranges p u"
  using sb_new_state [of rc ext a m p] assms
  by (auto simp: sb_choose_location_ranges sb_set_title_ranges_other)

lemma add_scalar_bar_range_mono:
  assumes "scalar_bar_ranges p u = Some (Val lo, Val hi)"
  shows "\<exists>lo' hi'. scalar_bar_ranges (snd (add_scalar_bar rc ext a p)) u
            = Some (Val lo', Val hi') \<and> lo' \<le> lo \<and> hi \<le> hi'"
proof (cases rule: add_scalar_bar_cases [where a = a and p = p and rc = rc and ext = ext])
  case no_mapper
  with assms show ?thesis by simp
next
  case (existing t r0 m)
  with sb_merge_range_mono [OF assms, of t m] show ?thesis by simp
next
  case (new m)
  with assms have "title_given (sb_title a) \<noteq> Some u" by auto
  with new assms show ?thesis by (simp add: sb_new_ranges_other)
qed

lemma add_scalar_bars_range_mono:
  assumes "scalar_bar_ranges p u = Some (Val lo, Val hi)"
  shows "\<exists>lo' hi'. scalar_bar_ranges (snd (add_scalar_bars rc ext script p)) u
            = Some (Val lo', Val hi') \<and> lo' \<le> lo \<and> hi \<le> hi'"
  using assms
proof (induction script arbitrary: p lo hi)
  case Nil
  then show ?case by simp
next
  case (Cons a script)
  obtain e p1 where step: "add_scalar_bar rc ext a p = (e, p1)"
    by (cases "add_scalar_bar rc ext a p")
  from add_scalar_bar_range_mono [OF Cons.prems, of rc ext a] step
  obtain lo1 hi1 where r1: "scalar_bar_ranges p1 u = Some (Val lo1, Val hi1)"
    and b1: "lo1 \<le> lo" "hi \<le> hi1" by auto
  show ?case
  proof (cases e)
    case None
    from Cons.IH [OF r1] obtain lo' hi' where
      "scalar_bar_ranges (snd (add_scalar_bars rc ext script p1)) u = Some (Val lo', Val hi')"
      "lo' \<le> lo1" "hi1 \<le> hi'" by auto
    with b1 None step show ?thesis by (auto intro: order_trans)
  next
    case (Some err)
    with step r1 b1 show ?thesis by simp
  qed
qed

lemma merge_script:
  assumes t: "title_given (sb_title a) = Some t"
  shows "distinct hs \<Longrightarrow> set hs \<inter> set ms = {} \<Longrightarrow>
     (\<forall>m\<in>set hs. scalar_range (heap p m) = (Val (lo_of m), Val (hi_of m))) \<Longrightarrow>
     scalar_bar_ranges p t = Some (Val lo, Val hi) \<Longrightarrow> scalar_bar_mappers p t = Some ms \<Longrightarrow>
     \<exists>p'. add_scalar_bars rc ext (merge_bars a hs) p = (None, p')
        \<and> scalar_bar_ranges p' t =
            Some (Val (fold min (map lo_of hs) lo), Val (fold max (map hi_of hs) hi))
        \<and> scalar_bar_mappers p' t = Some (ms @ hs)"
proof (induction hs arbitrary: p lo hi ms)
  case Nil
  then show ?case by (simp add: merge_bars_def)
next
  case (Cons m' hs)
  let ?a = "a\<lparr> sb_mapper := Some m' \<rparr>"
  let ?r = "(Val (min lo (lo_of m')), Val (max hi (hi_of m')))"
  let ?p1 = "p\<lparr> heap := (\<lambda>x. if x \<in> set ms \<union> {m'} then SetScalarRange ?r (heap p x) else heap p x),
               scalar_bar_mappers := (scalar_bar_mappers p)(t \<mapsto> ms @ [m']),
               scalar_bar_ranges := (scalar_bar_ranges p)(t \<mapsto> ?r) \<rparr>"
  have nr: "scalar_range (heap p m') = (Val (lo_of m'), Val (hi_of m'))"
    using Cons.prems(3) by simp
  have "add_scalar_bar rc ext ?a p = sb_merge t m' (Val lo, Val hi) p"
    by (rule add_scalar_bar_existing) (use t Cons.prems in simp_all)
  also have "\<dots> = (None, ?p1)"
    by (rule sb_merge_finite [OF Cons.prems(5) nr])
  finally have step: "add_scalar_bar rc ext ?a p = (None, ?p1)" .
  have "\<exists>p'. add_scalar_bars rc ext (merge_bars a hs) ?p1 = (None, p')
        \<and> scalar_bar_ranges p' t =
            Some (Val (fold min (map lo_of hs) (min lo (lo_of m'))),
                  Val (fold max (map hi_of hs) (max hi (hi_of m'))))
        \<and> scalar_bar_mappers p' t = Some ((ms @ [m']) @ hs)"
  proof (rule Cons.IH [where ms = "ms @ [m']"])
    show "distinct hs" using Cons.prems(1) by simp
    show "set hs \<inter> set (ms @ [m']) = {}" using Cons.prems(1,2) by auto
    show "\<forall>m\<in>set hs. scalar_range (heap ?p1 m) = (Val (lo_of m), Val (hi_of m))"
    proof
      fix m assume mem: "m \<in> set hs"
      then have "m \<notin> set ms" "m \<noteq> m'" using Cons.prems(1,2) by auto
      moreover have "scalar_range (heap p m) = (Val (lo_of m), Val (hi_of m))"
        using Cons.prems(3) mem by simp
      ultimately show "scalar_range (heap ?p1 m) = (Val (lo_of m), Val (hi_of m))" by simp
    qed
  qed simp_all
  then obtain p' where run: "add_scalar_bars rc ext (merge_bars a hs) ?p1 = (None, p')"
    and r': "scalar_bar_ranges p' t =
            Some (Val (fold min (map lo_of hs) (min lo (lo_of m'))),
                  Val (fold max (map hi_of hs) (max hi (hi_of m'))))"
    and m': "scalar_bar_mappers p' t = Some ((ms @ [m']) @ hs)"
    by blast
  have "add_scalar_bars rc ext (merge_bars a (m' # hs)) p = (None, p')"
    using step run by (simp add: merge_bars_def)
  moreover have "fold min (map lo_of (m' # hs)) lo = fold min (map lo_of hs) (min lo (lo_of m'))"
    by (simp add: min.commute)
  moreover have "fold max (map hi_of (m' # hs)) hi = fold max (map hi_of hs) (max hi (hi_of m'))"
    by (simp add: max.commute)
  ultimately show ?case using r' m' by simp
qed

lemma fold_min_Min: "fold min xs (a::real) = Min (insert a (set xs))"
  using Min.set_eq_fold [of a xs] by simp

lemma fold_max_Max: "fold max xs (a::real) = Max (insert a (set xs))"
  using Max.set_eq_fold [of a xs] by simp


text \<open>
  C2. Range merge: when \<^verbatim>\<open>add_scalar_bar\<close> is called for a title that has a range
  \<open>(lo, hi)\<close> already, with a mapper whose range is \<open>(nlo, nhi)\<close> (both ranges of
  numbers), the call returns normally, the stored range of the title becomes
  \<open>(min lo nlo, max hi nhi)\<close>, the mapper is appended to the mappers of the title, and
  every mapper of the title, the new one included, gets the merged range. Across any
  script of further calls the stored range of the title never shrinks, and merging the
  mappers \<open>hs\<close> (distinct, not yet among the mappers of the title) one after the other
  leaves the least of all lower bounds and the greatest of all upper bounds.
\<close>

theorem range_merge:
  assumes t: "title_given (sb_title a) = Some t"
    and r: "scalar_bar_ranges p t = Some (Val lo, Val hi)"
    and ms: "scalar_bar_mappers p t = Some ms"
    and m: "(case sb_mapper a of None \<Rightarrow> mapper p | Some m \<Rightarrow> Some m) = Some m"
    and nr: "scalar_range (heap p m) = (Val nlo, Val nhi)"
  shows "fst (add_scalar_bar rc ext a p) = None
    \<and> scalar_bar_ranges (snd (add_scalar_bar rc ext a p)) t
        = Some (Val (min lo nlo), Val (max hi nhi))
    \<and> scalar_bar_mappers (snd (add_scalar_bar rc ext a p)) t = Some (ms @ [m])
    \<and> (\<forall>m'\<in>set (ms @ [m]). scalar_range (heap (snd (add_scalar_bar rc ext a p)) m')
          = (Val (min lo nlo), Val (max hi nhi)))
    \<and> (\<forall>script. \<exists>lo' hi'.
          scalar_bar_ranges (snd (add_scalar_bars rc ext script p)) t = Some (Val lo', Val hi')
          \<and> lo' \<le> lo \<and> hi \<le> hi')
    \<and> (\<forall>hs lo_of hi_of.
          distinct hs \<and> set hs \<inter> set ms = {}
          \<and> (\<forall>h\<in>set hs. scalar_range (heap p h) = (Val (lo_of h), Val (hi_of h)))
          \<longrightarrow> fst (add_scalar_bars rc ext (merge_bars a hs) p) = None
            \<and> scalar_bar_ranges (snd (add_scalar_bars rc ext (merge_bars a hs) p)) t
                = Some (Val (Min (insert lo (lo_of ` set hs))),
                        Val (Max (insert hi (hi_of ` set hs)))))"
proof -
  have "add_scalar_bar rc ext a p = sb_merge t m (Val lo, Val hi) p"
    by (rule add_scalar_bar_existing [OF t r m])
  then have step: "add_scalar_bar rc ext a p =
     (None, p\<lparr> heap := (\<lambda>x. if x \<in> set ms \<union> {m}
                             then SetScalarRange (Val (min lo nlo), Val (max hi nhi)) (heap p x)
                             else heap p x),
               scalar_bar_mappers := (scalar_bar_mappers p)(t \<mapsto> ms @ [m]),
               scalar_bar_ranges := (scalar_bar_ranges p)(t \<mapsto> (Val (min lo nlo), Val (max hi nhi))) \<rparr>)"
    by (simp add: sb_merge_finite [OF ms nr])
  have one: "fst (add_scalar_bar rc ext a p) = None
    \<and> scalar_bar_ranges (snd (add_scalar_bar rc ext a p)) t
        = Some (Val (min lo nlo), Val (max hi nhi))
    \<and> scalar_bar_mappers (snd (add_scalar_bar rc ext a p)) t = Some (ms @ [m])
    \<and> (\<forall>m'\<in>set (ms @ [m]). scalar_range (heap (snd (add_scalar_bar rc ext a p)) m')
          = (Val (min lo nlo), Val (max hi nhi)))"
    unfolding step by (auto simp: SetScalarRange_def)
  have mono: "\<exists>lo' hi'.
          scalar_bar_ranges (snd (add_scalar_bars rc ext script p)) t = Some (Val lo', Val hi')
          \<and> lo' \<le> lo \<and> hi \<le> hi'" for script
    by (rule add_scalar_bars_range_mono [OF r])
  have union: "fst (add_scalar_bars rc ext (merge_bars a hs) p) = None
            \<and> scalar_bar_ranges (snd (add_scalar_bars rc ext (merge_bars a hs) p)) t
                = Some (Val (Min (insert lo (lo_of ` set hs))),
                        Val (Max (insert hi (hi_of ` set hs))))"
    if "distinct hs" "set hs \<inter> set ms = {}"
      "\<forall>h\<in>set hs. scalar_range (heap p h) = (Val (lo_of h), Val (hi_of h))"
    for hs lo_of hi_of
    using merge_script [OF t that r ms, of rc ext]
    by (auto simp: fold_min_Min fold_max_Max)
  show ?thesis
    using one mono union by blast
qed

subsection \<open>Idempotence and explicit positions\<close>

text \<open>
  C4. Acquire idempotence: a call of \<^verbatim>\<open>add_scalar_bar\<close> for a title that has an entry
  already leaves the free pool and the recorded slots (the slot of the title among them)
  as they are and adds no entry; it returns normally when a mapper is there.
  \<^verbatim>\<open>add_scalar_bar\<close> has no return value: the slot of the title is the one recorded in
  the lookup.
\<close>

theorem acquire_idempotent:
  assumes "title_given (sb_title a) = Some t" and "t \<in> dom (scalar_bar_ranges p)"
  shows "scalar_bar_slots (snd (add_scalar_bar rc ext a p)) = scalar_bar_slots p
       \<and> scalar_bar_slot_lookup (snd (add_scalar_bar rc ext a p)) = scalar_bar_slot_lookup p
       \<and> dom (scalar_bar_ranges (snd (add_scalar_bar rc ext a p))) = dom (scalar_bar_ranges p)
       \<and> ((sb_mapper a \<noteq> None \<or> mapper p \<noteq> None) \<and> t \<in> dom (scalar_bar_mappers p)
            \<longrightarrow> fst (add_scalar_bar rc ext a p) = None)"
proof (cases rule: add_scalar_bar_cases [where a = a and p = p and rc = rc and ext = ext])
  case no_mapper
  then show ?thesis by (auto split: option.splits)
next
  case (existing t' r0 m)
  with assms(1) have [simp]: "t' = t" by simp
  show ?thesis
    using existing assms(2)
    by (auto simp: sb_merge_slots sb_merge_dom sb_merge_outcome)
next
  case (new m)
  with assms show ?thesis by auto
qed

text \<open>
  C10. Explicit positions: a call of \<^verbatim>\<open>add_scalar_bar\<close> with both \<^verbatim>\<open>position_x\<close> and
  \<^verbatim>\<open>position_y\<close> given removes no slot from the free pool and never raises the
  capacity error, whatever the pool holds. With a new title (and a mapper, a color and a
  font that parse) the least free slot is still read to be recorded for the title, which
  raises the \<^verbatim>\<open>ValueError\<close> of \<^verbatim>\<open>min\<close> on an empty pool, after the range and the
  mapper of the title were stored.
\<close>

theorem explicit_position_takes_no_slot:
  assumes "sb_position_x a = Some x" and "sb_position_y a = Some y"
  shows "scalar_bar_slots (snd (add_scalar_bar rc ext a p)) = scalar_bar_slots p
     \<and> fst (add_scalar_bar rc ext a p) \<noteq> Some MaxColorBars
     \<and> (title_given (sb_title a) = Some t \<and> scalar_bar_ranges p t = None
        \<and> (case sb_mapper a of None \<Rightarrow> mapper p | Some m \<Rightarrow> Some m) = Some m
        \<and> parse_color rc (string_to_rgb ext)
             (case sb_color a of None \<Rightarrow> rc_font_color rc | Some c \<Rightarrow> Some c) = Inr rgb
        \<and> parse_font_family
             (case sb_font_family a of None \<Rightarrow> rc_font_family rc | Some f \<Rightarrow> f) = Inr f
        \<longrightarrow> (scalar_bar_slots p = {} \<longrightarrow> add_scalar_bar rc ext a p =
                 (Some MinOfEmpty,
                  p\<lparr> scalar_bar_ranges := (scalar_bar_ranges p)(t \<mapsto> scalar_range (heap p m)),
                     scalar_bar_mappers := (scalar_bar_mappers p)(t \<mapsto> [m]) \<rparr>))
          \<and> (scalar_bar_slots p \<noteq> {} \<longrightarrow>
               scalar_bar_slot_lookup (snd (add_scalar_bar rc ext a p)) t
                 = Some (Min (scalar_bar_slots p))))"
proof -
  have loc: "sb_choose_location a p = (None, p)"
    using assms by (simp add: sb_choose_location_def)
  have slots: "scalar_bar_slots (snd (add_scalar_bar rc ext a p)) = scalar_bar_slots p"
    by (cases rule: add_scalar_bar_cases [where a = a and p = p and rc = rc and ext = ext])
       (simp_all add: sb_merge_slots sb_new_explicit_slots [OF assms])
  have nomax: "fst (add_scalar_bar rc ext a p) \<noteq> Some MaxColorBars"
  proof (cases rule: add_scalar_bar_cases [where a = a and p = p and rc = rc and ext = ext])
    case no_mapper
    then show ?thesis by simp
  next
    case (existing t r0 m)
    then show ?thesis by (simp add: sb_merge_outcome)
  next
    case (new m)
    show ?thesis
      using sb_new_max_color_bars [of rc ext a m p] loc new by auto
  qed
  have title: "add_scalar_bar rc ext a p =
                 (Some MinOfEmpty,
                  p\<lparr> scalar_bar_ranges := (scalar_bar_ranges p)(t \<mapsto> scalar_range (heap p m)),
                     scalar_bar_mappers := (scalar_bar_mappers p)(t \<mapsto> [m]) \<rparr>)"
    if "title_given (sb_title a) = Some t" "scalar_bar_ranges p t = None"
      "(case sb_mapper a of None \<Rightarrow> mapper p | Some m \<Rightarrow> Some m) = Some m"
      "parse_color rc (string_to_rgb ext)
             (case sb_color a of None \<Rightarrow> rc_font_color rc | Some c \<Rightarrow> Some c) = Inr rgb"
      "parse_font_family
             (case sb_font_family a of None \<Rightarrow> rc_font_family rc | Some f \<Rightarrow> f) = Inr f"
      "scalar_bar_slots p = {}"
  proof -
    have "add_scalar_bar rc ext a p = sb_new rc ext a m p"
      using that by (intro add_scalar_bar_new) auto
    then show ?thesis
      using that loc by (simp add: sb_new_def Let_def sb_set_title_def)
  qed
  have lookup: "scalar_bar_slot_lookup (snd (add_scalar_bar rc ext a p)) t
                 = Some (Min (scalar_bar_slots p))"
    if "title_given (sb_title a) = Some t" "scalar_bar_ranges p t = None"
      "(case sb_mapper a of None \<Rightarrow> mapper p | Some m \<Rightarrow> Some m) = Some m"
      "parse_color rc (string_to_rgb ext)
             (case sb_color a of None \<Rightarrow> rc_font_color rc | Some c \<Rightarrow> Some c) = Inr rgb"
      "parse_font_family
             (case sb_font_family a of None \<Rightarrow> rc_font_family rc | Some f \<Rightarrow> f) = Inr f"
      "scalar_bar_slots p \<noteq> {}"
  proof -
    have "add_scalar_bar rc ext a p = sb_new rc ext a m p"
      using that by (intro add_scalar_bar_new) auto
    then show ?thesis
      using that loc by (simp add: sb_new_def Let_def sb_set_title_def)
  qed
  show ?thesis
    using slots nomax title lookup by blast
qed

subsection \<open>The capacity\<close>

lemma nine_run:
  "\<exists>p9. add_scalar_bars default_rcParams engine_example (titled_bars nine_titles 0)
           (init_state (1, 1)) = (None, p9)
     \<and> scalar_bar_slots p9 = {9..<MAX_N_COLOR_BARS}
     \<and> dom (scalar_bar_ranges p9) = set nine_titles"
proof -
  have "\<exists>p'. add_scalar_bars default_rcParams engine_example
             (map (\<lambda>t. titled t 0) nine_titles) (init_state (1, 1)) = (None, p')
     \<and> scalar_bar_slots p' = {0 + length nine_titles..<MAX_N_COLOR_BARS}
     \<and> dom (scalar_bar_ranges p') = dom (scalar_bar_ranges (init_state (1, 1))) \<union> set nine_titles
     \<and> heap p' = heap (init_state (1, 1)) \<and> shape p' = shape (init_state (1, 1))
     \<and> mapper p' = mapper (init_state (1, 1))"
    by (rule titled_script [OF _ _ _ _ _ default_color default_font])
       (simp_all add: nine_titles_def MAX_N_COLOR_BARS_def)
  then show ?thesis
    by (auto simp: titled_bars_def nine_titles_def eval_nat_numeral)
qed

lemma full_session_run:
  "fst (add_scalar_bars default_rcParams engine_example (titled_bars ten_titles 0)
          (init_state (1, 1))) = Some MinOfEmpty
   \<and> scalar_bar_slots full_session = {}
   \<and> dom (scalar_bar_ranges full_session) = set ten_titles"
proof -
  let ?rc = default_rcParams and ?ext = engine_example
  obtain p9 where run9: "add_scalar_bars ?rc ?ext (titled_bars nine_titles 0) (init_state (1, 1)) = (None, p9)"
    and pool9: "scalar_bar_slots p9 = {9..<MAX_N_COLOR_BARS}"
    and dom9: "dom (scalar_bar_ranges p9) = set nine_titles"
    using nine_run by blast
  have "''j'' \<notin> dom (scalar_bar_ranges p9)"
    unfolding dom9 by (simp add: nine_titles_def)
  then have r9: "scalar_bar_ranges p9 ''j'' = None"
    by blast
  let ?p10 = "p9\<lparr> scalar_bar_slots := {Suc 9..<MAX_N_COLOR_BARS},
                  scalar_bar_ranges := (scalar_bar_ranges p9)(''j'' \<mapsto> scalar_range (heap p9 0)),
                  scalar_bar_mappers := (scalar_bar_mappers p9)(''j'' \<mapsto> [0]) \<rparr>"
  have step10: "add_scalar_bar ?rc ?ext (titled ''j'' 0) p9 = (Some MinOfEmpty, ?p10)"
    using titled_step [OF _ r9 pool9 _ default_color default_font, where m = 0]
    by (simp add: MAX_N_COLOR_BARS_def Let_def)
  have run10: "add_scalar_bars ?rc ?ext (titled_bars ten_titles 0) (init_state (1, 1))
                 = (Some MinOfEmpty, ?p10)"
    using run9 step10
    by (simp add: ten_titles_def titled_bars_def add_scalar_bars_append)
  show ?thesis
    unfolding full_session_def run10
    by (simp add: MAX_N_COLOR_BARS_def dom9 ten_titles_def)
qed


text \<open>
  C1. Capacity, evaluated on the code: from a fresh plotter, nine distinct titles get a bar
  at an automatic position; the call for the tenth title raises the \<^verbatim>\<open>ValueError\<close> of
  \<^verbatim>\<open>min\<close> on the emptied pool (line 1400), not the capacity error, and does not return.
  The call for an eleventh title then raises the capacity error, and after \<^verbatim>\<open>clear\<close> a
  call for a new title returns normally.
\<close>

theorem tenth_titled_colorbar_raises:
  "fst (add_scalar_bars default_rcParams engine_example (titled_bars nine_titles 0)
          (init_state (1, 1))) = None
   \<and> fst (add_scalar_bars default_rcParams engine_example (titled_bars ten_titles 0)
            (init_state (1, 1))) = Some MinOfEmpty
   \<and> add_scalar_bar default_rcParams engine_example (titled ''k'' 0) full_session
       = (Some MaxColorBars, full_session)
   \<and> fst (add_scalar_bar default_rcParams engine_example (titled ''k'' 0) (clear full_session))
       = None"
proof -
  let ?rc = default_rcParams and ?ext = engine_example
  have nine: "fst (add_scalar_bars ?rc ?ext (titled_bars nine_titles 0) (init_state (1, 1))) = None"
    using nine_run by auto
  have "''k'' \<notin> dom (scalar_bar_ranges full_session)"
    using full_session_run by (simp add: ten_titles_def nine_titles_def)
  then have r10: "scalar_bar_ranges full_session ''k'' = None"
    by blast
  have "add_scalar_bar ?rc ?ext (titled ''k'' 0) full_session
          = sb_new ?rc ?ext (titled ''k'' 0) 0 full_session"
    by (rule add_scalar_bar_titled [OF _ r10]) simp
  also have "\<dots> = (Some MaxColorBars, full_session)"
    by (rule sb_new_pool_empty) (use full_session_run in \<open>simp_all add: titled_def sb_default_def\<close>)
  finally have step11:
    "add_scalar_bar ?rc ?ext (titled ''k'' 0) full_session = (Some MaxColorBars, full_session)" .
  have again: "fst (add_scalar_bar ?rc ?ext (titled ''k'' 0) (clear full_session)) = None"
    using titled_step [where t = "''k''" and p = "clear full_session" and k = 0 and m = 0,
        OF _ _ _ _ default_color default_font]
    by (simp add: MAX_N_COLOR_BARS_def Let_def)
  show ?thesis
    using nine full_session_run step11 again by simp
qed

subsection \<open>The invariant of the slot pool\<close>

lemma pool_inv_init_state: "pool_inv (init_state shp)"
  by (simp add: pool_inv_def)

lemma pool_inv_clear: "pool_inv (clear p)"
  by (simp add: pool_inv_def)

lemma pool_inv_close: "pool_inv (close p)"
  by (simp add: pool_inv_def close_def)

lemma pool_inv_meshed:
  "pool_inv p \<Longrightarrow> pool_inv (p\<lparr> mesh := m, mapper := h, heap := hp, next_handle := n \<rparr>)"
  by (simp add: pool_inv_def)

lemma pool_inv_merge:
  assumes "pool_inv p" and "scalar_bar_ranges p t = Some r0"
  shows "pool_inv (snd (sb_merge t m r0 p))"
  using assms sb_merge_dom [OF assms(2), of m]
  by (simp add: pool_inv_def sb_merge_slots)

lemma pool_inv_take:
  assumes inv: "pool_inv p" and r: "scalar_bar_ranges p t = None"
    and ne: "scalar_bar_slots p \<noteq> {}"
    and ne': "scalar_bar_slots p - {Min (scalar_bar_slots p)} \<noteq> {}"
  shows "pool_inv (p\<lparr> scalar_bar_slots := scalar_bar_slots p - {Min (scalar_bar_slots p)},
             scalar_bar_ranges := (scalar_bar_ranges p)(t \<mapsto> r),
             scalar_bar_mappers := (scalar_bar_mappers p)(t \<mapsto> [m]),
             scalar_bar_slot_lookup := (scalar_bar_slot_lookup p)
                (t \<mapsto> Min (scalar_bar_slots p - {Min (scalar_bar_slots p)})) \<rparr>)"
proof -
  let ?S = "scalar_bar_slots p" and ?L = "scalar_bar_slot_lookup p"
  let ?S' = "?S - {Min ?S}"
  from inv have sub: "?S \<subseteq> {0..<MAX_N_COLOR_BARS}" and fd: "finite (dom (scalar_bar_ranges p))"
    and cd: "card ?S + card (dom (scalar_bar_ranges p)) = MAX_N_COLOR_BARS"
    and dl: "dom ?L = dom (scalar_bar_ranges p)"
    and inj: "inj_on ?L (dom (scalar_bar_ranges p))"
    and le: "\<And>t s x. ?L t = Some s \<Longrightarrow> x \<in> ?S \<Longrightarrow> s \<le> x"
    by (auto simp: pool_inv_def)
  have fin: "finite ?S" using sub by (rule finite_subset) simp
  have min_in: "Min ?S \<in> ?S" using fin ne by (rule Min_in)
  have fin': "finite ?S'" using fin by simp
  have min'_in: "Min ?S' \<in> ?S'" using fin' ne' by (rule Min_in)
  have lt: "Min ?S < Min ?S'"
    using min'_in Min_le [OF fin, of "Min ?S'"] by (simp add: le_neq_implies_less)
  have tnd: "t \<notin> dom (scalar_bar_ranges p)" using r by blast
  have card_S: "card ?S' = card ?S - 1" using fin min_in by simp
  have pos: "0 < card ?S" using fin ne by (simp add: card_gt_0_iff)
  have old_lt: "s < Min ?S'" if "?L u = Some s" for u s
    using le [OF that min_in] lt by simp
  have inj': "inj_on (?L(t \<mapsto> Min ?S')) (insert t (dom (scalar_bar_ranges p)))"
  proof (rule inj_onI)
    fix u v assume u: "u \<in> insert t (dom (scalar_bar_ranges p))"
      and v: "v \<in> insert t (dom (scalar_bar_ranges p))"
      and eq: "(?L(t \<mapsto> Min ?S')) u = (?L(t \<mapsto> Min ?S')) v"
    show "u = v"
    proof (cases "u = t")
      case ut: True
      show ?thesis
      proof (cases "v = t")
        case True with ut show ?thesis by simp
      next
        case False
        with v dl obtain s where "?L v = Some s" by blast
        with eq ut False old_lt [of v s] show ?thesis by simp
      qed
    next
      case uf: False
      with u dl obtain s where s: "?L u = Some s" by blast
      show ?thesis
      proof (cases "v = t")
        case True
        with eq uf s old_lt [of u s] show ?thesis by simp
      next
        case False
        with eq uf u v inj show ?thesis by (auto dest: inj_onD)
      qed
    qed
  qed
  show ?thesis
    unfolding pool_inv_def
    using sub fd cd dl inj' tnd card_S pos le old_lt min'_in fin'
    by (auto simp: Min_le less_imp_le)
qed

lemma pool_inv_bar:
  assumes inv: "pool_inv p" and t: "title_given (sb_title a) \<noteq> None"
    and auto: "sb_position_x a = None \<or> sb_position_y a = None"
    and ret: "add_scalar_bar rc ext a p = (None, p')"
  shows "pool_inv p'"
proof (cases rule: add_scalar_bar_cases [where a = a and p = p and rc = rc and ext = ext])
  case no_mapper
  with ret show ?thesis by simp
next
  case (existing t r0 m)
  with ret pool_inv_merge [OF inv existing(2), of m] show ?thesis by simp
next
  case (new m)
  with t obtain u where u: "title_given (sb_title a) = Some u" "scalar_bar_ranges p u = None"
    by auto
  from new ret have "sb_new rc ext a m p = (None, p')" by simp
  from sb_new_returns [OF u(1) auto this] pool_inv_take [OF inv u(2)]
  show ?thesis by simp
qed

lemma titled_session_pool_inv: "titled_session p \<Longrightarrow> pool_inv p"
proof (induction rule: titled_session.induct)
  case (started shp p)
  then show ?case by (auto simp: init_def pool_inv_init_state split: if_splits)
next
  case (cleared p)
  show ?case by (rule pool_inv_clear)
next
  case (closed p)
  show ?case by (rule pool_inv_close)
next
  case (meshed p m h hp n)
  then show ?case by (simp add: pool_inv_meshed)
next
  case (bar p a rc ext p')
  then show ?case using pool_inv_bar by blast
qed


lemma placed_step:
  assumes t: "t \<noteq> []" and r: "scalar_bar_ranges p t = None"
    and pool: "scalar_bar_slots p \<noteq> {}"
    and color: "parse_color rc (string_to_rgb ext) (rc_font_color rc) = Inr rgb"
    and font: "parse_font_family (rc_font_family rc) = Inr f"
  shows "add_scalar_bar rc ext (placed t m x y) p =
     (None, p\<lparr> scalar_bar_ranges := (scalar_bar_ranges p)(t \<mapsto> scalar_range (heap p m)),
               scalar_bar_mappers := (scalar_bar_mappers p)(t \<mapsto> [m]),
               scalar_bar_slot_lookup := (scalar_bar_slot_lookup p)(t \<mapsto> Min (scalar_bar_slots p)) \<rparr>)"
proof -
  have "add_scalar_bar rc ext (placed t m x y) p = sb_new rc ext (placed t m x y) m p"
    using t r by (intro add_scalar_bar_new) (simp_all add: placed_def)
  then show ?thesis
    using assms
    by (simp add: sb_new_def Let_def sb_choose_location_def sb_set_title_def
        sb_interactive_check_def placed_def sb_default_def)
qed

text \<open>
  C5, as stated, fails: two bars with titles and explicit positions both return normally,
  take no slot from the pool and both record slot 0, so that one slot is held by two
  entries and no slot is allocated for two entries.
\<close>

theorem slot_pool_invariant_counterexample:
  "fst (add_scalar_bars default_rcParams engine_example
          [placed ''A'' 0 0 0, placed ''B'' 0 0 0] (init_state (1, 1))) = None
   \<and> \<not> slot_pool_invariant
         (snd (add_scalar_bars default_rcParams engine_example
                 [placed ''A'' 0 0 0, placed ''B'' 0 0 0] (init_state (1, 1))))"
proof -
  let ?p0 = "init_state (1, 1)"
  have mn: "Min {0..<MAX_N_COLOR_BARS} = 0"
    by (rule Min_nat_interval) (simp add: MAX_N_COLOR_BARS_def)
  let ?p1 = "?p0\<lparr> scalar_bar_ranges := [''A'' \<mapsto> (Val 0, Val 1)],
                  scalar_bar_mappers := [''A'' \<mapsto> [0]],
                  scalar_bar_slot_lookup := [''A'' \<mapsto> 0] \<rparr>"
  let ?p2 = "?p1\<lparr> scalar_bar_ranges := [''A'' \<mapsto> (Val 0, Val 1), ''B'' \<mapsto> (Val 0, Val 1)],
                  scalar_bar_mappers := [''A'' \<mapsto> [0], ''B'' \<mapsto> [0]],
                  scalar_bar_slot_lookup := [''A'' \<mapsto> 0, ''B'' \<mapsto> 0] \<rparr>"
  have s1: "add_scalar_bar default_rcParams engine_example (placed ''A'' 0 0 0) ?p0 = (None, ?p1)"
    using placed_step [where t = "''A''" and p = ?p0 and m = 0 and x = 0 and y = 0,
        OF _ _ _ default_color default_font]
    by (simp add: mn vtkDataSetMapper_def) (simp add: MAX_N_COLOR_BARS_def)
  have s2: "add_scalar_bar default_rcParams engine_example (placed ''B'' 0 0 0) ?p1 = (None, ?p2)"
    using placed_step [where t = "''B''" and p = ?p1 and m = 0 and x = 0 and y = 0,
        OF _ _ _ default_color default_font]
    by (simp add: mn vtkDataSetMapper_def) (simp add: MAX_N_COLOR_BARS_def)
  have run: "add_scalar_bars default_rcParams engine_example
          [placed ''A'' 0 0 0, placed ''B'' 0 0 0] ?p0 = (None, ?p2)"
    by (simp only: add_scalar_bars.simps s1 s2 prod.case option.case)
  have "\<not> inj_on (scalar_bar_slot_lookup ?p2) (dom (scalar_bar_slot_lookup ?p2))"
    by (auto simp: inj_on_def)
  then show ?thesis
    unfolding run by (simp add: slot_pool_invariant_def)
qed

text \<open>
  C5, amended. In every state that a plotter reaches by the constructor, \<^verbatim>\<open>clear\<close>,
  \<^verbatim>\<open>close\<close>, new meshes and calls of \<^verbatim>\<open>add_scalar_bar\<close> that return normally, have a
  non-empty title and leave a position to be chosen, each slot is recorded for at most one
  title and the number of allocated slots (the capacity minus the size of the free pool)
  is the number of titles with an entry; the free slots are among \<open>0..9\<close> and the titles
  with a slot are the titles with a range.
\<close>

theorem titled_session_invariant:
  assumes "titled_session p"
  shows "slot_pool_invariant p
     \<and> scalar_bar_slots p \<subseteq> {0..<MAX_N_COLOR_BARS}
     \<and> dom (scalar_bar_slot_lookup p) = dom (scalar_bar_ranges p)"
proof -
  from assms have "pool_inv p" by (rule titled_session_pool_inv)
  then show ?thesis
    unfolding pool_inv_def slot_pool_invariant_def by auto
qed

subsection \<open>Witnesses\<close>

lemma shared_bar_session_eq:
  "shared_bar_session =
     (init_state (1, 1))
       \<lparr> heap := three_mappers,
         scalar_bar_slots := {Suc 0..<MAX_N_COLOR_BARS},
         scalar_bar_ranges := [''T'' \<mapsto> (Val 0, Val 5)],
         scalar_bar_mappers := [''T'' \<mapsto> [0]],
         scalar_bar_slot_lookup := [''T'' \<mapsto> Suc 0] \<rparr>"
  unfolding shared_bar_session_def
  using titled_step [where t = "''T''" and p = "(init_state (1, 1))\<lparr> heap := three_mappers \<rparr>"
      and k = 0 and m = 0, OF _ _ _ _ default_color default_font]
  by (simp add: MAX_N_COLOR_BARS_def Let_def three_mappers_def)

lemma shared_bar_session_titled: "titled_session shared_bar_session"
proof -
  have "titled_session (init_state (1, 1))"
    by (rule titled_session.started [of "(1, 1)"]) (simp add: init_def)
  then have "titled_session ((init_state (1, 1))
      \<lparr> mesh := None, mapper := None, heap := three_mappers, next_handle := 0 \<rparr>)"
    by (rule titled_session.meshed)
  then have start: "titled_session ((init_state (1, 1))\<lparr> heap := three_mappers \<rparr>)"
    by (simp add: init_state_def)
  have step: "add_scalar_bar default_rcParams engine_example (titled ''T'' 0)
                ((init_state (1, 1))\<lparr> heap := three_mappers \<rparr>) = (None, shared_bar_session)"
    unfolding shared_bar_session_eq
    using titled_step [where t = "''T''" and p = "(init_state (1, 1))\<lparr> heap := three_mappers \<rparr>"
      and k = 0 and m = 0, OF _ _ _ _ default_color default_font]
    by (simp add: MAX_N_COLOR_BARS_def Let_def three_mappers_def)
  show ?thesis
    by (rule titled_session.bar [OF start _ _ step]) (simp_all add: titled_def sb_default_def)
qed


theorem range_merge_witness:
  "title_given (sb_title (titled ''T'' 1)) = Some ''T''
   \<and> scalar_bar_ranges shared_bar_session ''T'' = Some (Val 0, Val 5)
   \<and> scalar_bar_mappers shared_bar_session ''T'' = Some [0]
   \<and> scalar_range (heap shared_bar_session 1) = (Val (- 2), Val 3)
   \<and> scalar_range (heap shared_bar_session 2) = (Val 1, Val 2)
   \<and> scalar_bar_ranges
        (snd (add_scalar_bar default_rcParams engine_example (titled ''T'' 1) shared_bar_session))
        ''T'' = Some (Val (- 2), Val 5)
   \<and> scalar_range
        (heap (snd (add_scalar_bar default_rcParams engine_example (titled ''T'' 1)
                      shared_bar_session)) 0) = (Val (- 2), Val 5)
   \<and> scalar_range
        (heap (snd (add_scalar_bar default_rcParams engine_example (titled ''T'' 1)
                      shared_bar_session)) 1) = (Val (- 2), Val 5)
   \<and> distinct [1, 2 :: nat]
   \<and> scalar_bar_ranges
        (snd (add_scalar_bars default_rcParams engine_example
                (merge_bars (titled ''T'' 1) [1, 2]) shared_bar_session))
        ''T'' = Some (Val (- 2), Val 5)"
proof -
  let ?a = "titled ''T'' 1"
  have t: "title_given (sb_title ?a) = Some ''T''" by (simp add: titled_def)
  have r: "scalar_bar_ranges shared_bar_session ''T'' = Some (Val 0, Val 5)"
    by (simp add: shared_bar_session_eq)
  have ms: "scalar_bar_mappers shared_bar_session ''T'' = Some [0]"
    by (simp add: shared_bar_session_eq)
  have m: "(case sb_mapper ?a of None \<Rightarrow> mapper shared_bar_session | Some m \<Rightarrow> Some m) = Some 1"
    by (simp add: titled_def)
  have nr: "scalar_range (heap shared_bar_session 1) = (Val (- 2), Val 3)"
    by (simp add: shared_bar_session_eq three_mappers_def)
  have nr2: "scalar_range (heap shared_bar_session 2) = (Val 1, Val 2)"
    by (simp add: shared_bar_session_eq three_mappers_def)
  note rm = range_merge [OF t r ms m nr, of default_rcParams engine_example]
  have one: "scalar_bar_ranges (snd (add_scalar_bar default_rcParams engine_example ?a shared_bar_session))
        ''T'' = Some (Val (- 2), Val 5)"
    using rm by simp
  have all: "\<forall>m'\<in>set ([0] @ [1]).
       scalar_range (heap (snd (add_scalar_bar default_rcParams engine_example ?a
                      shared_bar_session)) m') = (Val (- 2), Val 5)"
    using rm by simp
  have script: "scalar_bar_ranges
        (snd (add_scalar_bars default_rcParams engine_example
                (merge_bars ?a [1, 2]) shared_bar_session))
        ''T'' = Some (Val (Min (insert 0 ((\<lambda>h. if h = 1 then - 2 else 1) ` set [1, 2 :: nat]))),
                     Val (Max (insert 5 ((\<lambda>h. if h = 1 then 3 else 2) ` set [1, 2 :: nat]))))"
  proof -
    have pre: "distinct [1, 2 :: nat] \<and> set [1, 2 :: nat] \<inter> set [0] = {}
      \<and> (\<forall>h\<in>set [1, 2 :: nat]. scalar_range (heap shared_bar_session h)
            = (Val (if h = 1 then - 2 else 1), Val (if h = 1 then 3 else 2)))"
      using nr nr2 by simp
    note u = rm [THEN conjunct2, THEN conjunct2, THEN conjunct2, THEN conjunct2, THEN conjunct2,
        rule_format, of "[1, 2]" "\<lambda>h. if h = 1 then - 2 else 1" "\<lambda>h. if h = 1 then 3 else 2"]
    from u [OF pre] show ?thesis by (rule conjunct2)
  qed
  show ?thesis
    using t r ms nr nr2 one all script by simp
qed

theorem acquire_idempotent_witness:
  "title_given (sb_title (titled ''T'' 1)) = Some ''T''
   \<and> ''T'' \<in> dom (scalar_bar_ranges shared_bar_session)
   \<and> scalar_bar_slot_lookup shared_bar_session ''T'' = Some 1
   \<and> fst (add_scalar_bar default_rcParams engine_example (titled ''T'' 1) shared_bar_session) = None
   \<and> scalar_bar_slots
        (snd (add_scalar_bar default_rcParams engine_example (titled ''T'' 1) shared_bar_session))
       = scalar_bar_slots shared_bar_session
   \<and> scalar_bar_slot_lookup
        (snd (add_scalar_bar default_rcParams engine_example (titled ''T'' 1) shared_bar_session))
        ''T'' = Some 1"
proof -
  have t: "title_given (sb_title (titled ''T'' 1)) = Some ''T''"
    by (simp add: titled_def)
  have d: "''T'' \<in> dom (scalar_bar_ranges shared_bar_session)"
    by (simp add: shared_bar_session_eq)
  have l: "scalar_bar_slot_lookup shared_bar_session ''T'' = Some 1"
    by (simp add: shared_bar_session_eq)
  have m: "sb_mapper (titled ''T'' 1) \<noteq> None" "''T'' \<in> dom (scalar_bar_mappers shared_bar_session)"
    by (simp_all add: titled_def shared_bar_session_eq)
  show ?thesis
    using acquire_idempotent [OF t d, of default_rcParams engine_example] t d l m
    by simp
qed

theorem explicit_position_takes_no_slot_witness:
  "sb_position_x (placed ''k'' 0 0 0) = Some 0 \<and> sb_position_y (placed ''k'' 0 0 0) = Some 0
   \<and> scalar_bar_slots full_session = {}
   \<and> fst (add_scalar_bar default_rcParams engine_example (placed ''k'' 0 0 0) full_session)
       = Some MinOfEmpty
   \<and> scalar_bar_slots
        (snd (add_scalar_bar default_rcParams engine_example (placed ''k'' 0 0 0) full_session)) = {}
   \<and> scalar_bar_slots (init_state (1, 1)) \<noteq> {}
   \<and> scalar_bar_slots
        (snd (add_scalar_bar default_rcParams engine_example (placed ''k'' 0 0 0) (init_state (1, 1))))
       = scalar_bar_slots (init_state (1, 1))
   \<and> scalar_bar_slot_lookup
        (snd (add_scalar_bar default_rcParams engine_example (placed ''k'' 0 0 0) (init_state (1, 1))))
        ''k'' = Some 0"
proof -
  let ?a = "placed ''k'' 0 0 0"
  have x: "sb_position_x ?a = Some 0" and y: "sb_position_y ?a = Some 0"
    by (simp_all add: placed_def)
  have t: "title_given (sb_title ?a) = Some ''k''" by (simp add: placed_def)
  have "''k'' \<notin> dom (scalar_bar_ranges full_session)"
    using full_session_run by (simp add: ten_titles_def nine_titles_def)
  then have r: "scalar_bar_ranges full_session ''k'' = None" by blast
  have m: "(case sb_mapper ?a of None \<Rightarrow> mapper p | Some m \<Rightarrow> Some m) = Some 0" for p :: plotter
    by (simp add: placed_def)
  have c: "parse_color default_rcParams (string_to_rgb engine_example)
             (case sb_color ?a of None \<Rightarrow> rc_font_color default_rcParams | Some c \<Rightarrow> Some c)
           = Inr [1, 1, 1]"
    using default_color [of engine_example] by (simp add: placed_def sb_default_def)
  have f: "parse_font_family
             (case sb_font_family ?a of None \<Rightarrow> rc_font_family default_rcParams | Some f \<Rightarrow> f)
           = Inr VTK_COURIER"
    using default_font by (simp add: placed_def sb_default_def)
  have e: "scalar_bar_slots full_session = {}" using full_session_run by simp
  have mn: "Min {0..<MAX_N_COLOR_BARS} = 0"
    by (rule Min_nat_interval) (simp add: MAX_N_COLOR_BARS_def)
  have ne: "scalar_bar_slots (init_state (1, 1)) \<noteq> {}"
    by (simp add: MAX_N_COLOR_BARS_def)
  show ?thesis
    using explicit_position_takes_no_slot [OF x y, of default_rcParams engine_example
        full_session "''k''" 0 "[1, 1, 1]" VTK_COURIER]
      explicit_position_takes_no_slot [OF x y, of default_rcParams engine_example
        "init_state (1, 1)" "''k''" 0 "[1, 1, 1]" VTK_COURIER]
      x y t r m c f e mn ne
    by simp
qed

theorem titled_session_invariant_witness:
  "titled_session shared_bar_session
   \<and> slot_pool_invariant shared_bar_session
   \<and> scalar_bar_slots shared_bar_session \<subseteq> {0..<MAX_N_COLOR_BARS}
   \<and> dom (scalar_bar_slot_lookup shared_bar_session) = dom (scalar_bar_ranges shared_bar_session)"
  using titled_session_invariant [OF shared_bar_session_titled] shared_bar_session_titled
  by simp

section \<open>Properties of the scalar binding\<close>

subsection \<open>The stages of \<^verbatim>\<open>add_mesh\<close>\<close>

lemma array_size_flat_float [simp]: "array_size (flat_float arr) = array_size arr"
  by (cases arr) (simp_all add: flat_float_def)

lemma am_set_rng_frame [simp]:
  "mesh (am_set_rng h r p) = mesh p"
  "mapper (am_set_rng h r p) = mapper p"
  "mode (heap (am_set_rng h r p) x) = mode (heap p x)"
  "scalar_bar_slots (am_set_rng h r p) = scalar_bar_slots p"
  by (simp_all add: am_set_rng_def SetScalarRange_def)

lemma am_set_rng_range:
  "scalar_range (heap (am_set_rng h r p) h) =
     (if truthy (fst r) \<or> truthy (snd r) then r else scalar_range (heap p h))"
  by (simp add: am_set_rng_def SetScalarRange_def)

lemma SetScalarRange_fields [simp]:
  "mode (SetScalarRange r m) = mode m"
  "scalar_range (SetScalarRange r m) = r"
  by (simp_all add: SetScalarRange_def)

lemma sb_merge_frame:
  "mesh (snd (sb_merge t m r0 p)) = mesh p"
  "mapper (snd (sb_merge t m r0 p)) = mapper p"
  "mode (heap (snd (sb_merge t m r0 p)) x) = mode (heap p x)"
  by (simp_all add: sb_merge_def Let_def fold_SetScalarRange split: option.splits)

lemma sb_choose_location_frame:
  "mesh (snd (sb_choose_location a p)) = mesh p"
  "mapper (snd (sb_choose_location a p)) = mapper p"
  "heap (snd (sb_choose_location a p)) = heap p"
  by (simp_all add: sb_choose_location_def Let_def)

lemma sb_set_title_frame:
  "mesh (snd (sb_set_title ff ti m p)) = mesh p"
  "mapper (snd (sb_set_title ff ti m p)) = mapper p"
  "heap (snd (sb_set_title ff ti m p)) = heap p"
  by (simp_all add: sb_set_title_def Let_def split: option.splits sum.splits)

lemma sb_new_frame:
  "mesh (snd (sb_new rc ext a m p)) = mesh p"
  "mapper (snd (sb_new rc ext a m p)) = mapper p"
  "heap (snd (sb_new rc ext a m p)) = heap p"
  using sb_new_state [of rc ext a m p]
  by (auto simp: sb_choose_location_frame sb_set_title_frame)

lemma add_scalar_bar_frame:
  "mesh (snd (add_scalar_bar rc ext a p)) = mesh p"
  "mapper (snd (add_scalar_bar rc ext a p)) = mapper p"
  "mode (heap (snd (add_scalar_bar rc ext a p)) x) = mode (heap p x)"
  by (cases rule: add_scalar_bar_cases [where a = a and p = p and rc = rc and ext = ext];
      simp add: sb_merge_frame sb_new_frame)+

text \<open>What a call of \<^verbatim>\<open>add_mesh\<close> leaves, in terms of the state after the scalar formatting.\<close>

lemma add_mesh_after_formatting:
  assumes nan: "parse_color rc (string_to_rgb ext)
                  (case am_nan_color a of None \<Rightarrow> rc_nan_color rc | Some c \<Rightarrow> Some c) = Inr nan_rgb"
    and dflt: "am_default_scalars a = (tex, sc, st)"
    and tex: "am_texture_stage ext (am_mesh a) tex (am_color a) = Inr c"
    and fmt: "am_scalar_formatting rc ext a (next_handle p) sc st
                (case am_rng a of None \<Rightarrow> am_clim a | Some r \<Rightarrow> Some r)
                (am_set_main_values a p) = (e, p2, st')"
  shows "mesh (snd (add_mesh rc ext a p)) = mesh p2"
    and "mapper (snd (add_mesh rc ext a p)) = mapper p2"
    and "mode (heap (snd (add_mesh rc ext a p)) x) = mode (heap p2 x)"
    and "e = Some err \<Longrightarrow> add_mesh rc ext a p = (Some err, p2)"
    and "st' = None \<or> \<not> am_show_scalar_bar a \<Longrightarrow> snd (add_mesh rc ext a p) = p2"
  using assms
  by (auto simp: add_mesh_def Let_def add_scalar_bar_frame split: option.splits)

lemma am_set_main_values_fields [simp]:
  "mesh (am_set_main_values a p) = Some (am_mesh a)"
  "mapper (am_set_main_values a p) = Some (next_handle p)"
  "mode (heap (am_set_main_values a p) (next_handle p)) = ScalarModeDefault"
  "scalar_range (heap (am_set_main_values a p) (next_handle p)) = (Val 0, Val 1)"
  by (simp_all add: am_set_main_values_def Let_def vtkDataSetMapper_def)

lemma am_bind_scalars_points:
  assumes "array_size arr = n_points (am_mesh a)"
  shows "fst (am_bind_scalars a h arr title p) = None"
    and "mesh (snd (am_bind_scalars a h arr title p)) = Some (add_point_scalar arr title True (am_mesh a))"
    and "mapper (snd (am_bind_scalars a h arr title p)) = mapper p"
    and "mode (heap (snd (am_bind_scalars a h arr title p)) h) = UsePointData"
    and "scalar_range (heap (snd (am_bind_scalars a h arr title p)) h) = scalar_range (heap p h)"
  using assms by (simp_all add: am_bind_scalars_def Let_def)

lemma am_bind_scalars_cells:
  assumes "array_size arr = n_cells (am_mesh a)" and "array_size arr \<noteq> n_points (am_mesh a)"
  shows "fst (am_bind_scalars a h arr title p) = None"
    and "mesh (snd (am_bind_scalars a h arr title p)) = Some (add_cell_scalar arr title True (am_mesh a))"
    and "mapper (snd (am_bind_scalars a h arr title p)) = mapper p"
    and "mode (heap (snd (am_bind_scalars a h arr title p)) h) = UseCellData"
    and "scalar_range (heap (snd (am_bind_scalars a h arr title p)) h) = scalar_range (heap p h)"
  using assms by (simp_all add: am_bind_scalars_def Let_def)

lemma am_bind_scalars_mismatch:
  assumes "array_size arr \<noteq> n_cells (am_mesh a)" and "array_size arr \<noteq> n_points (am_mesh a)"
  shows "am_bind_scalars a h arr title p =
     (Some (NotMatching (array_size arr) (n_points (am_mesh a)) (n_cells (am_mesh a))), p)"
  using assms by (simp add: am_bind_scalars_def Let_def)

text \<open>The scalar formatting of an array that was bound: the state is the bound one with the range set.\<close>

lemma am_scalar_formatting_array:
  "am_scalar_formatting rc ext a h (Some (ScalarsArray arr)) st rng p =
     (let title = (case st of None \<Rightarrow> ''Data'' | Some t \<Rightarrow> t);
          b = am_bind_scalars a h (flat_float arr) title p
      in case fst b of
           Some e \<Rightarrow> (Some e, snd b, st)
         | None \<Rightarrow>
             (case am_resolve_rng rng (flat_float arr) of
                Inl e \<Rightarrow> (Some e, snd b, st)
              | Inr r \<Rightarrow>
                  (am_cmap_check ext (case am_cmap a of None \<Rightarrow> rc_cmap rc | Some c \<Rightarrow> Some c),
                   am_set_rng h r (snd b), st)))"
  by (cases "am_bind_scalars a h (flat_float arr) (case st of None \<Rightarrow> ''Data'' | Some t \<Rightarrow> t) p")
     (simp add: am_scalar_formatting_def am_resolve_scalars_def Let_def split: option.splits sum.splits)

lemma am_default_scalars_given:
  "am_scalars a \<noteq> None \<Longrightarrow> am_default_scalars a = (am_texture a, am_scalars a, am_stitle a)"
  by (auto simp add: am_default_scalars_def)

lemma bookkeeping_frame [simp]:
  "scalar_bar_ranges (am_set_main_values a p) = scalar_bar_ranges p"
  "scalar_bar_ranges (am_set_rng h r p) = scalar_bar_ranges p"
  "scalar_bar_ranges (snd (am_bind_scalars a h arr title p)) = scalar_bar_ranges p"
  by (simp_all add: am_set_main_values_def am_set_rng_def am_bind_scalars_def Let_def)

lemma add_scalar_bar_new_title_heap:
  assumes "\<forall>t. title_given (sb_title a) = Some t \<longrightarrow> scalar_bar_ranges p t = None"
  shows "heap (snd (add_scalar_bar rc ext a p)) = heap p"
  by (cases rule: add_scalar_bar_cases [where a = a and p = p and rc = rc and ext = ext])
     (use assms in \<open>auto simp: sb_new_frame\<close>)

lemma add_mesh_heap_after_formatting:
  assumes nan: "parse_color rc (string_to_rgb ext)
                  (case am_nan_color a of None \<Rightarrow> rc_nan_color rc | Some c \<Rightarrow> Some c) = Inr nan_rgb"
    and dflt: "am_default_scalars a = (tex, sc, st)"
    and tex: "am_texture_stage ext (am_mesh a) tex (am_color a) = Inr c"
    and fmt: "am_scalar_formatting rc ext a (next_handle p) sc st
                (case am_rng a of None \<Rightarrow> am_clim a | Some r \<Rightarrow> Some r)
                (am_set_main_values a p) = (e, p2, st')"
    and new: "\<forall>t. st' = Some t \<and> t \<noteq> [] \<and> am_show_scalar_bar a \<longrightarrow> scalar_bar_ranges p2 t = None"
  shows "heap (snd (add_mesh rc ext a p)) = heap p2"
proof -
  have bar: "heap (snd (add_scalar_bar rc ext ((am_scalar_bar_args a)\<lparr> sb_title := Some t \<rparr>) p2)) = heap p2"
    if "st' = Some t" "am_show_scalar_bar a" for t
    by (rule add_scalar_bar_new_title_heap) (use that new in \<open>auto simp: title_given_eq_Some\<close>)
  show ?thesis
    using nan dflt tex fmt bar
    by (auto simp: add_mesh_def Let_def split: option.splits)
qed


lemma am_scalar_formatting_none:
  "am_scalar_formatting rc ext a h None st rng p =
     (None, p\<lparr> heap := (heap p)(h := (heap p h)\<lparr> mode := UseFieldData \<rparr>) \<rparr>, st)"
  by (simp add: am_scalar_formatting_def)

subsection \<open>The association of the scalars\<close>

text \<open>
  C3. Scalar association in \<^verbatim>\<open>add_mesh\<close>, for scalars given as an array, once the color
  of the not-a-numbers and the texture are accepted: an array whose size is the number of
  points is stored among the point arrays (flattened, under the scalar title) and the new
  mapper uses point data; an array whose size is the number of cells and not the number of
  points is stored among the cell arrays and the mapper uses cell data; for every other
  size the call raises the exception of \<^verbatim>\<open>_raise_not_matching\<close>, which carries the size of
  the array, the number of points and the number of cells.
\<close>

theorem scalar_association:
  assumes sc: "am_scalars a = Some (ScalarsArray arr)"
    and nan: "parse_color rc (string_to_rgb ext)
                (case am_nan_color a of None \<Rightarrow> rc_nan_color rc | Some c \<Rightarrow> Some c) = Inr nan_rgb"
    and tex: "am_texture_stage ext (am_mesh a) (am_texture a) (am_color a) = Inr c"
  shows "(array_size arr = n_points (am_mesh a) \<longrightarrow>
            mapper (snd (add_mesh rc ext a p)) = Some (next_handle p)
          \<and> mode (heap (snd (add_mesh rc ext a p)) (next_handle p)) = UsePointData
          \<and> mesh (snd (add_mesh rc ext a p)) =
              Some (add_point_scalar (flat_float arr)
                      (case am_stitle a of None \<Rightarrow> ''Data'' | Some t \<Rightarrow> t) True (am_mesh a)))
     \<and> (array_size arr = n_cells (am_mesh a) \<and> array_size arr \<noteq> n_points (am_mesh a) \<longrightarrow>
            mapper (snd (add_mesh rc ext a p)) = Some (next_handle p)
          \<and> mode (heap (snd (add_mesh rc ext a p)) (next_handle p)) = UseCellData
          \<and> mesh (snd (add_mesh rc ext a p)) =
              Some (add_cell_scalar (flat_float arr)
                      (case am_stitle a of None \<Rightarrow> ''Data'' | Some t \<Rightarrow> t) True (am_mesh a)))
     \<and> (array_size arr \<noteq> n_points (am_mesh a) \<and> array_size arr \<noteq> n_cells (am_mesh a) \<longrightarrow>
            add_mesh rc ext a p =
              (Some (NotMatching (array_size arr) (n_points (am_mesh a)) (n_cells (am_mesh a))),
               am_set_main_values a p))"
proof -
  let ?h = "next_handle p" and ?p1 = "am_set_main_values a p"
  let ?title = "case am_stitle a of None \<Rightarrow> ''Data'' | Some t \<Rightarrow> t"
  let ?rng = "case am_rng a of None \<Rightarrow> am_clim a | Some r \<Rightarrow> Some r"
  have dflt: "am_default_scalars a = (am_texture a, Some (ScalarsArray arr), am_stitle a)"
    using sc am_default_scalars_given [of a] by simp
  obtain e p2 st' where fmt:
    "am_scalar_formatting rc ext a ?h (Some (ScalarsArray arr)) (am_stitle a) ?rng ?p1 = (e, p2, st')"
    by (cases "am_scalar_formatting rc ext a ?h (Some (ScalarsArray arr)) (am_stitle a) ?rng ?p1")
  note after = add_mesh_after_formatting [OF nan dflt tex fmt]
  have points: "mapper p2 = Some ?h \<and> mode (heap p2 ?h) = UsePointData
      \<and> mesh p2 = Some (add_point_scalar (flat_float arr) ?title True (am_mesh a))"
    if "array_size arr = n_points (am_mesh a)"
    using fmt am_bind_scalars_points [of "flat_float arr" a ?h ?title ?p1] that
    by (auto simp: am_scalar_formatting_array Let_def split: option.splits sum.splits)
  have cells: "mapper p2 = Some ?h \<and> mode (heap p2 ?h) = UseCellData
      \<and> mesh p2 = Some (add_cell_scalar (flat_float arr) ?title True (am_mesh a))"
    if "array_size arr = n_cells (am_mesh a)" "array_size arr \<noteq> n_points (am_mesh a)"
    using fmt am_bind_scalars_cells [of "flat_float arr" a ?h ?title ?p1] that
    by (auto simp: am_scalar_formatting_array Let_def split: option.splits sum.splits)
  have mismatch: "e = Some (NotMatching (array_size arr) (n_points (am_mesh a)) (n_cells (am_mesh a)))
      \<and> p2 = ?p1"
    if "array_size arr \<noteq> n_points (am_mesh a)" "array_size arr \<noteq> n_cells (am_mesh a)"
    using fmt am_bind_scalars_mismatch [of "flat_float arr" a ?h ?title ?p1] that
    by (auto simp: am_scalar_formatting_array Let_def)
  show ?thesis
    using after(1,2,3,4) points cells mismatch by auto
qed

subsection \<open>The range of the scalars\<close>

lemma set_finite_values: "set (finite_values xs) = {v. Val v \<in> set xs}"
  by (induction xs) (auto simp: finite_values_def split: pyfloat.splits)

lemma nanmin_finite:
  assumes "Val v \<in> set xs"
  shows "nanmin xs = Inr (Val (Min {v. Val v \<in> set xs}))"
proof -
  from assms have ne: "xs \<noteq> []" by auto
  from assms have "finite_values xs \<noteq> []"
    using set_finite_values [of xs] by auto
  then obtain w ws where fv: "finite_values xs = w # ws" by (cases "finite_values xs") auto
  have "{v. Val v \<in> set xs} = insert w (set ws)"
    using set_finite_values [of xs] fv by simp
  then show ?thesis
    using ne fv by (simp add: nanmin_def fold_min_Min)
qed

lemma nanmax_finite:
  assumes "Val v \<in> set xs"
  shows "nanmax xs = Inr (Val (Max {v. Val v \<in> set xs}))"
proof -
  from assms have ne: "xs \<noteq> []" by auto
  from assms have "finite_values xs \<noteq> []"
    using set_finite_values [of xs] by auto
  then obtain w ws where fv: "finite_values xs = w # ws" by (cases "finite_values xs") auto
  have "{v. Val v \<in> set xs} = insert w (set ws)"
    using set_finite_values [of xs] fv by simp
  then show ?thesis
    using ne fv by (simp add: nanmax_def fold_max_Max)
qed

lemma not_truthy: "\<not> truthy x \<longleftrightarrow> x = Val 0"
  by (cases x) auto

lemma am_scalar_formatting_range:
  assumes bound: "array_size arr = n_points (am_mesh a) \<or> array_size arr = n_cells (am_mesh a)"
    and r: "am_resolve_rng rng (flat_float arr) = Inr r"
    and fmt: "am_scalar_formatting rc ext a h (Some (ScalarsArray arr)) st rng p = (e, p2, st')"
  shows "scalar_range (heap p2 h) = (if r = (Val 0, Val 0) then scalar_range (heap p h) else r)"
    and "st' = st" and "scalar_bar_ranges p2 = scalar_bar_ranges p"
proof -
  let ?title = "case st of None \<Rightarrow> ''Data'' | Some t \<Rightarrow> t"
  let ?b = "am_bind_scalars a h (flat_float arr) ?title p"
  have b: "fst ?b = None" "scalar_range (heap (snd ?b) h) = scalar_range (heap p h)"
    using bound by (auto simp: am_bind_scalars_def Let_def)
  have p2: "p2 = am_set_rng h r (snd ?b)" and st: "st' = st"
    using fmt r b(1) by (auto simp add: am_scalar_formatting_array Let_def)
  show "scalar_range (heap p2 h) = (if r = (Val 0, Val 0) then scalar_range (heap p h) else r)"
    unfolding p2 am_set_rng_range b(2)
    by (cases r) (auto simp: not_truthy)
  show "st' = st" by (rule st)
  show "scalar_bar_ranges p2 = scalar_bar_ranges p" unfolding p2 by simp
qed


text \<open>
  C6. Scalar range in \<^verbatim>\<open>add_mesh\<close>, for an array that is bound to the points or the
  cells (and a scalar bar, if any, for a title without a range, so that no merge follows):
  the range of the new mapper is \<open>(-s, s)\<close> for a single number \<open>s\<close>, the pair itself for
  a pair, and without a range the least and the greatest of the scalars that are numbers;
  but a range with both bounds zero is not given to the mapper, which keeps the range of
  its constructor.
\<close>

theorem scalar_range_resolution:
  assumes sc: "am_scalars a = Some (ScalarsArray arr)"
    and nan: "parse_color rc (string_to_rgb ext)
                (case am_nan_color a of None \<Rightarrow> rc_nan_color rc | Some c \<Rightarrow> Some c) = Inr nan_rgb"
    and tex: "am_texture_stage ext (am_mesh a) (am_texture a) (am_color a) = Inr c"
    and bound: "array_size arr = n_points (am_mesh a) \<or> array_size arr = n_cells (am_mesh a)"
    and new: "\<forall>t. am_stitle a = Some t \<and> t \<noteq> [] \<and> am_show_scalar_bar a
                \<longrightarrow> scalar_bar_ranges p t = None"
  shows "(let rng = (case am_rng a of None \<Rightarrow> am_clim a | Some r \<Rightarrow> Some r);
              set_range = scalar_range (heap (snd (add_mesh rc ext a p)) (next_handle p));
              unset = scalar_range vtkDataSetMapper;
              numbers = {v. Val v \<in> set (elements (flat_float arr))}
          in (\<forall>s. rng = Some (RngScalar s) \<longrightarrow>
                set_range = (if (neg s, s) = (Val 0, Val 0) then unset else (neg s, s)))
           \<and> (\<forall>lo hi. rng = Some (RngPair lo hi) \<longrightarrow>
                set_range = (if (lo, hi) = (Val 0, Val 0) then unset else (lo, hi)))
           \<and> (rng = None \<and> numbers \<noteq> {} \<longrightarrow>
                set_range = (if (Val (Min numbers), Val (Max numbers)) = (Val 0, Val 0) then unset
                             else (Val (Min numbers), Val (Max numbers)))))"
proof -
  let ?h = "next_handle p" and ?p1 = "am_set_main_values a p"
  let ?rng = "case am_rng a of None \<Rightarrow> am_clim a | Some r \<Rightarrow> Some r"
  let ?N = "{v. Val v \<in> set (elements (flat_float arr))}"
  have dflt: "am_default_scalars a = (am_texture a, Some (ScalarsArray arr), am_stitle a)"
    using sc am_default_scalars_given [of a] by simp
  obtain e p2 st' where fmt:
    "am_scalar_formatting rc ext a ?h (Some (ScalarsArray arr)) (am_stitle a) ?rng ?p1 = (e, p2, st')"
    by (cases "am_scalar_formatting rc ext a ?h (Some (ScalarsArray arr)) (am_stitle a) ?rng ?p1")
  have res: "scalar_range (heap (snd (add_mesh rc ext a p)) ?h)
               = (if r = (Val 0, Val 0) then scalar_range vtkDataSetMapper else r)"
    if r: "am_resolve_rng ?rng (flat_float arr) = Inr r" for r
  proof -
    note f = am_scalar_formatting_range [OF bound r fmt]
    have "heap (snd (add_mesh rc ext a p)) = heap p2"
      by (rule add_mesh_heap_after_formatting [OF nan dflt tex fmt]) (use f new in auto)
    then show ?thesis
      using f(1) by (simp add: vtkDataSetMapper_def)
  qed
  have scalar: "am_resolve_rng (Some (RngScalar s)) (flat_float arr) = Inr (neg s, s)" for s
    by (simp add: am_resolve_rng_def)
  have pair: "am_resolve_rng (Some (RngPair lo hi)) (flat_float arr) = Inr (lo, hi)" for lo hi
    by (simp add: am_resolve_rng_def)
  have none: "am_resolve_rng None (flat_float arr) = Inr (Val (Min ?N), Val (Max ?N))"
    if "?N \<noteq> {}"
  proof -
    from that obtain v where "Val v \<in> set (elements (flat_float arr))" by auto
    then show ?thesis
      by (simp add: am_resolve_rng_def nanmin_finite [of v] nanmax_finite [of v])
  qed
  show ?thesis
    unfolding Let_def
  proof (intro conjI allI impI)
    fix s assume "?rng = Some (RngScalar s)"
    then show "scalar_range (heap (snd (add_mesh rc ext a p)) ?h)
        = (if (neg s, s) = (Val 0, Val 0) then scalar_range vtkDataSetMapper else (neg s, s))"
      using res [of "(neg s, s)"] scalar [of s] by simp
  next
    fix lo hi assume "?rng = Some (RngPair lo hi)"
    then show "scalar_range (heap (snd (add_mesh rc ext a p)) ?h)
        = (if (lo, hi) = (Val 0, Val 0) then scalar_range vtkDataSetMapper else (lo, hi))"
      using res [of "(lo, hi)"] pair [of lo hi] by simp
  next
    assume "?rng = None \<and> ?N \<noteq> {}"
    then show "scalar_range (heap (snd (add_mesh rc ext a p)) ?h)
        = (if (Val (Min ?N), Val (Max ?N)) = (Val 0, Val 0) then scalar_range vtkDataSetMapper
           else (Val (Min ?N), Val (Max ?N)))"
      using res [of "(Val (Min ?N), Val (Max ?N))"] none by simp
  qed
qed

subsection \<open>Boolean scalars\<close>

lemma flat_float_bool:
  "flat_float (BoolArray d bs) = NumArray 1 (map (\<lambda>b. if b then Val 1 else Val 0) bs)"
  by (simp add: flat_float_def)

lemma bool_numbers:
  assumes "True \<in> set bs" and "False \<in> set bs"
  shows "{v. Val v \<in> set (map (\<lambda>b. if b then Val 1 else Val 0) bs)} = {0, 1 :: real}"
  using assms by (auto split: if_splits)


text \<open>
  C8. Boolean scalars: a boolean array of the size of the points, without a range, is
  converted to the numbers 0.0 and 1.0 before it is stored among the point arrays and
  before the range is computed; when it holds both \<^verbatim>\<open>False\<close> and \<^verbatim>\<open>True\<close> the computed
  range is \<open>(0.0, 1.0)\<close>, and it is the range of the new mapper.
\<close>

theorem boolean_scalars:
  assumes sc: "am_scalars a = Some (ScalarsArray (BoolArray d bs))"
    and nan: "parse_color rc (string_to_rgb ext)
                (case am_nan_color a of None \<Rightarrow> rc_nan_color rc | Some c \<Rightarrow> Some c) = Inr nan_rgb"
    and tex: "am_texture_stage ext (am_mesh a) (am_texture a) (am_color a) = Inr c"
    and size: "length bs = n_points (am_mesh a)"
    and norng: "am_rng a = None \<and> am_clim a = None"
    and new: "\<forall>t. am_stitle a = Some t \<and> t \<noteq> [] \<and> am_show_scalar_bar a
                \<longrightarrow> scalar_bar_ranges p t = None"
  shows "flat_float (BoolArray d bs) = NumArray 1 (map (\<lambda>b. if b then Val 1 else Val 0) bs)
     \<and> mode (heap (snd (add_mesh rc ext a p)) (next_handle p)) = UsePointData
     \<and> mesh (snd (add_mesh rc ext a p)) =
          Some (add_point_scalar (NumArray 1 (map (\<lambda>b. if b then Val 1 else Val 0) bs))
                  (case am_stitle a of None \<Rightarrow> ''Data'' | Some t \<Rightarrow> t) True (am_mesh a))
     \<and> (True \<in> set bs \<and> False \<in> set bs \<longrightarrow>
          am_resolve_rng None (flat_float (BoolArray d bs)) = Inr (Val 0, Val 1)
        \<and> scalar_range (heap (snd (add_mesh rc ext a p)) (next_handle p)) = (Val 0, Val 1))"
proof -
  let ?arr = "BoolArray d bs"
  let ?fl = "NumArray 1 (map (\<lambda>b. if b then Val 1 else Val 0) bs)"
  let ?h = "next_handle p" and ?p1 = "am_set_main_values a p"
  let ?title = "case am_stitle a of None \<Rightarrow> ''Data'' | Some t \<Rightarrow> t"
  have rng: "(case am_rng a of None \<Rightarrow> am_clim a | Some r \<Rightarrow> Some r) = None"
    using norng by simp
  have ff: "flat_float ?arr = ?fl" by (rule flat_float_bool)
  have bound: "array_size ?arr = n_points (am_mesh a)" using size by simp
  have dflt: "am_default_scalars a = (am_texture a, Some (ScalarsArray ?arr), am_stitle a)"
    using sc am_default_scalars_given [of a] by simp
  obtain e p2 st' where fmt:
    "am_scalar_formatting rc ext a ?h (Some (ScalarsArray ?arr)) (am_stitle a) None ?p1 = (e, p2, st')"
    by (cases "am_scalar_formatting rc ext a ?h (Some (ScalarsArray ?arr)) (am_stitle a) None ?p1")
  note after = add_mesh_after_formatting [OF nan dflt tex fmt [folded rng]]
  have points: "mode (heap p2 ?h) = UsePointData
      \<and> mesh p2 = Some (add_point_scalar ?fl ?title True (am_mesh a))"
    using fmt am_bind_scalars_points [of "flat_float ?arr" a ?h ?title ?p1] bound
    by (auto simp: am_scalar_formatting_array Let_def ff split: option.splits sum.splits)
  have both: "am_resolve_rng None (flat_float ?arr) = Inr (Val 0, Val 1)
        \<and> scalar_range (heap (snd (add_mesh rc ext a p)) ?h) = (Val 0, Val 1)"
    if tf: "True \<in> set bs" "False \<in> set bs"
  proof -
    have v: "Val 1 \<in> set (elements ?fl)" using tf by force
    have r: "am_resolve_rng None (flat_float ?arr) = Inr (Val 0, Val 1)"
      unfolding ff
      using nanmin_finite [OF v] nanmax_finite [OF v] bool_numbers [OF tf]
      by (simp add: am_resolve_rng_def)
    note f = am_scalar_formatting_range [OF disjI1 [OF bound] r fmt]
    have "heap (snd (add_mesh rc ext a p)) = heap p2"
      by (rule add_mesh_heap_after_formatting [OF nan dflt tex fmt [folded rng]])
         (use f new in auto)
    with f(1) r show ?thesis by simp
  qed
  show ?thesis
    using ff after(1,3) points both by simp
qed

subsection \<open>The default scalars\<close>

text \<open>
  C7, amended. For a call of \<^verbatim>\<open>add_mesh\<close> without scalars: when also no color and no
  texture are given and the mesh has no textures, the active array of the mesh is used if
  it is one-dimensional (bound to the points or the cells under the given scalar title or
  else its own name); in every other call without scalars (a color or a texture is given,
  the mesh has textures, there is no active array or it is not one-dimensional) nothing is
  bound: the mapper uses field data and the mesh is left as it is.
\<close>

theorem default_scalar_fallback:
  assumes none: "am_scalars a = None"
    and nan: "parse_color rc (string_to_rgb ext)
                (case am_nan_color a of None \<Rightarrow> rc_nan_color rc | Some c \<Rightarrow> Some c) = Inr nan_rgb"
  shows "(am_color a = None \<and> am_texture a = None \<and> textures (am_mesh a) = []
          \<and> active_scalar (am_mesh a) = Some arr \<and> ndim arr = 1 \<longrightarrow>
            (array_size arr = n_points (am_mesh a) \<longrightarrow>
               mode (heap (snd (add_mesh rc ext a p)) (next_handle p)) = UsePointData
             \<and> mesh (snd (add_mesh rc ext a p)) =
                 Some (add_point_scalar (flat_float arr)
                         (case am_stitle a of
                            None \<Rightarrow> (case snd (active_scalar_info (am_mesh a)) of
                                       None \<Rightarrow> ''Data'' | Some n \<Rightarrow> n)
                          | Some t \<Rightarrow> t) True (am_mesh a)))
          \<and> (array_size arr = n_cells (am_mesh a) \<and> array_size arr \<noteq> n_points (am_mesh a) \<longrightarrow>
               mode (heap (snd (add_mesh rc ext a p)) (next_handle p)) = UseCellData
             \<and> mesh (snd (add_mesh rc ext a p)) =
                 Some (add_cell_scalar (flat_float arr)
                         (case am_stitle a of
                            None \<Rightarrow> (case snd (active_scalar_info (am_mesh a)) of
                                       None \<Rightarrow> ''Data'' | Some n \<Rightarrow> n)
                          | Some t \<Rightarrow> t) True (am_mesh a))))
     \<and> ((am_color a \<noteq> None \<or> am_texture a \<noteq> None \<or> textures (am_mesh a) \<noteq> []
           \<or> active_scalar (am_mesh a) = None
           \<or> (\<exists>arr. active_scalar (am_mesh a) = Some arr \<and> ndim arr \<noteq> 1))
          \<and> am_texture_stage ext (am_mesh a) (fst (am_default_scalars a)) (am_color a) = Inr c \<longrightarrow>
            mode (heap (snd (add_mesh rc ext a p)) (next_handle p)) = UseFieldData
          \<and> mesh (snd (add_mesh rc ext a p)) = Some (am_mesh a))"
proof -
  let ?h = "next_handle p" and ?p1 = "am_set_main_values a p"
  let ?rng = "case am_rng a of None \<Rightarrow> am_clim a | Some r \<Rightarrow> Some r"
  let ?st = "case am_stitle a of None \<Rightarrow> snd (active_scalar_info (am_mesh a)) | Some t \<Rightarrow> Some t"
  let ?title = "case am_stitle a of
                  None \<Rightarrow> (case snd (active_scalar_info (am_mesh a)) of
                             None \<Rightarrow> ''Data'' | Some n \<Rightarrow> n)
                | Some t \<Rightarrow> t"
  have title: "(case ?st of None \<Rightarrow> ''Data'' | Some t \<Rightarrow> t) = ?title"
    by (simp split: option.splits)
  have used: "(array_size arr = n_points (am_mesh a) \<longrightarrow>
               mode (heap (snd (add_mesh rc ext a p)) ?h) = UsePointData
             \<and> mesh (snd (add_mesh rc ext a p)) =
                 Some (add_point_scalar (flat_float arr) ?title True (am_mesh a)))
          \<and> (array_size arr = n_cells (am_mesh a) \<and> array_size arr \<noteq> n_points (am_mesh a) \<longrightarrow>
               mode (heap (snd (add_mesh rc ext a p)) ?h) = UseCellData
             \<and> mesh (snd (add_mesh rc ext a p)) =
                 Some (add_cell_scalar (flat_float arr) ?title True (am_mesh a)))"
    if pre: "am_color a = None" "am_texture a = None" "textures (am_mesh a) = []"
      "active_scalar (am_mesh a) = Some arr" "ndim arr = 1"
  proof -
    have dflt: "am_default_scalars a = (None, Some (ScalarsArray arr), ?st)"
      using none pre by (simp add: am_default_scalars_def)
    have tex: "am_texture_stage ext (am_mesh a) None (am_color a) = Inr (am_color a)"
      by (simp add: am_texture_stage_def)
    obtain e p2 st' where fmt:
      "am_scalar_formatting rc ext a ?h (Some (ScalarsArray arr)) ?st ?rng ?p1 = (e, p2, st')"
      by (cases "am_scalar_formatting rc ext a ?h (Some (ScalarsArray arr)) ?st ?rng ?p1")
    note after = add_mesh_after_formatting [OF nan dflt tex fmt]
    have points: "mode (heap p2 ?h) = UsePointData
        \<and> mesh p2 = Some (add_point_scalar (flat_float arr) ?title True (am_mesh a))"
      if "array_size arr = n_points (am_mesh a)"
      using fmt am_bind_scalars_points [of "flat_float arr" a ?h ?title ?p1] that
      by (auto simp: am_scalar_formatting_array Let_def title split: option.splits sum.splits)
    have cells: "mode (heap p2 ?h) = UseCellData
        \<and> mesh p2 = Some (add_cell_scalar (flat_float arr) ?title True (am_mesh a))"
      if "array_size arr = n_cells (am_mesh a)" "array_size arr \<noteq> n_points (am_mesh a)"
      using fmt am_bind_scalars_cells [of "flat_float arr" a ?h ?title ?p1] that
      by (auto simp: am_scalar_formatting_array Let_def title split: option.splits sum.splits)
    show ?thesis
      using after(1,3) points cells by simp
  qed
  have unused: "mode (heap (snd (add_mesh rc ext a p)) ?h) = UseFieldData
          \<and> mesh (snd (add_mesh rc ext a p)) = Some (am_mesh a)"
    if pre: "am_color a \<noteq> None \<or> am_texture a \<noteq> None \<or> textures (am_mesh a) \<noteq> []
           \<or> active_scalar (am_mesh a) = None
           \<or> (\<exists>arr. active_scalar (am_mesh a) = Some arr \<and> ndim arr \<noteq> 1)"
      and tex: "am_texture_stage ext (am_mesh a) (fst (am_default_scalars a)) (am_color a) = Inr c"
  proof -
    have "fst (snd (am_default_scalars a)) = None"
      using none pre by (auto simp: am_default_scalars_def split: option.splits)
    then obtain tx st where dflt: "am_default_scalars a = (tx, None, st)"
      by (cases "am_default_scalars a") auto
    have tex': "am_texture_stage ext (am_mesh a) tx (am_color a) = Inr c"
      using tex dflt by simp
    have fmt: "am_scalar_formatting rc ext a ?h None st ?rng ?p1 =
        (None, ?p1\<lparr> heap := (heap ?p1)(?h := (heap ?p1 ?h)\<lparr> mode := UseFieldData \<rparr>) \<rparr>, st)"
      by (rule am_scalar_formatting_none)
    note after = add_mesh_after_formatting [OF nan dflt tex' fmt]
    show ?thesis
      using after(1,3) by simp
  qed
  show ?thesis
    using used unused by blast
qed

subsection \<open>Meshes in a session\<close>

lemma am_set_rng_update: "am_set_rng h r p = p\<lparr> heap := heap (am_set_rng h r p) \<rparr>"
  by (simp add: am_set_rng_def)

lemma am_bind_scalars_update:
  "snd (am_bind_scalars a h arr title p) =
     p\<lparr> mesh := mesh (snd (am_bind_scalars a h arr title p)),
        heap := heap (snd (am_bind_scalars a h arr title p)) \<rparr>"
  by (simp add: am_bind_scalars_def Let_def)

lemma am_scalar_formatting_update:
  assumes "am_scalar_formatting rc ext a h sc st rng p = (e, p2, st')"
  shows "p2 = p\<lparr> mesh := mesh p2, heap := heap p2 \<rparr>"
    and "st = Some t \<Longrightarrow> st' = Some t"
proof -
  have "p2 = p\<lparr> mesh := mesh p2, heap := heap p2 \<rparr> \<and> (st = Some t \<longrightarrow> st' = Some t)"
  proof (cases sc)
    case None
    with assms show ?thesis by (auto simp: am_scalar_formatting_none)
  next
    case (Some s)
    show ?thesis
    proof (cases "am_resolve_scalars a s st")
      case (Inl err)
      with assms Some show ?thesis by (auto simp: am_scalar_formatting_def Let_def)
    next
      case (Inr x)
      obtain arr title st1 where x: "x = (arr, title, st1)" by (cases x)
      have st1: "st = Some t \<longrightarrow> st1 = Some t"
        using Inr x by (auto simp: am_resolve_scalars_def Let_def split: scalars_arg.splits sum.splits)
      obtain e1 p1 where b: "am_bind_scalars a h arr title p = (e1, p1)"
        by (cases "am_bind_scalars a h arr title p")
      have p1: "p1 = p\<lparr> mesh := mesh p1, heap := heap p1 \<rparr>"
        using am_bind_scalars_update [of a h arr title p] b by simp
      show ?thesis
      proof (cases "e1 = None \<and> (\<exists>r. am_resolve_rng rng arr = Inr r)")
        case True
        then obtain r where r: "am_resolve_rng rng arr = Inr r" and e1: "e1 = None" by auto
        have "p2 = am_set_rng h r p1" and "st' = st1"
          using assms Some Inr x b r e1 by (auto simp: am_scalar_formatting_def Let_def)
        then show ?thesis
          using p1 st1 am_set_rng_update [of h r p1]
          by (metis (no_types, lifting) am_set_rng_frame(1) plotter.surjective plotter.update_convs(6,8))
      next
        case False
        then have "p2 = p1" and "st' = st1"
          using assms Some Inr x b
          by (auto simp: am_scalar_formatting_def Let_def split: option.splits sum.splits)
        then show ?thesis using p1 st1 by simp
      qed
    qed
  qed
  then show "p2 = p\<lparr> mesh := mesh p2, heap := heap p2 \<rparr>"
    and "st = Some t \<Longrightarrow> st' = Some t" by auto
qed

lemma titled_session_fields:
  assumes "titled_session p"
  shows "titled_session (p\<lparr> mesh := m, heap := hp \<rparr>)"
proof -
  have "titled_session (p\<lparr> mesh := m, mapper := mapper p, heap := hp, next_handle := next_handle p \<rparr>)"
    using assms by (rule titled_session.meshed)
  then show ?thesis by simp
qed

lemma am_default_scalars_stitle:
  "am_stitle a = Some t \<Longrightarrow> snd (snd (am_default_scalars a)) = Some t"
  by (auto simp: am_default_scalars_def split: option.splits)

text \<open>
  A call of \<^verbatim>\<open>add_mesh\<close> that returns normally keeps a plotter among the sessions of
  titled bars, when it shows no scalar bar or has a non-empty scalar title and leaves a
  position of the bar to be chosen.
\<close>

lemma titled_session_add_mesh:
  assumes s: "titled_session p" and ret: "add_mesh rc ext a p = (None, p')"
    and auto: "sb_position_x (am_scalar_bar_args a) = None \<or> sb_position_y (am_scalar_bar_args a) = None"
    and title: "\<not> am_show_scalar_bar a \<or> (\<exists>t. am_stitle a = Some t \<and> t \<noteq> [])"
  shows "titled_session p'"
proof -
  let ?rng = "case am_rng a of None \<Rightarrow> am_clim a | Some r \<Rightarrow> Some r"
  let ?p1 = "am_set_main_values a p"
  have s1: "titled_session ?p1"
    unfolding am_set_main_values_def Let_def using s by (rule titled_session.meshed)
  obtain tex sc st where dflt: "am_default_scalars a = (tex, sc, st)"
    by (cases "am_default_scalars a")
  obtain e p2 st' where fmt:
    "am_scalar_formatting rc ext a (next_handle p) sc st ?rng ?p1 = (e, p2, st')"
    by (cases "am_scalar_formatting rc ext a (next_handle p) sc st ?rng ?p1")
  note upd = am_scalar_formatting_update [OF fmt]
  have s2: "titled_session p2"
    using titled_session_fields [OF s1, where m = "mesh p2" and hp = "heap p2"] upd(1) by simp
  have st': "st' = Some t" if "am_stitle a = Some t" for t
    using am_default_scalars_stitle [OF that] dflt upd(2) [of t] by simp
  from ret dflt fmt have "p' = p2 \<or>
      (\<exists>t. st' = Some t \<and> am_show_scalar_bar a \<and>
           add_scalar_bar rc ext ((am_scalar_bar_args a)\<lparr> sb_title := Some t \<rparr>) p2 = (None, p'))"
    by (auto simp: add_mesh_def Let_def split: sum.splits option.splits if_splits)
  then show ?thesis
  proof
    assume "p' = p2" with s2 show ?thesis by simp
  next
    assume "\<exists>t. st' = Some t \<and> am_show_scalar_bar a \<and>
           add_scalar_bar rc ext ((am_scalar_bar_args a)\<lparr> sb_title := Some t \<rparr>) p2 = (None, p')"
    then obtain t where t: "st' = Some t" "am_show_scalar_bar a"
      and bar: "add_scalar_bar rc ext ((am_scalar_bar_args a)\<lparr> sb_title := Some t \<rparr>) p2 = (None, p')"
      by auto
    from title t(2) obtain u where u: "am_stitle a = Some u" "u \<noteq> []" by auto
    with st' t(1) have "t \<noteq> []" by auto
    then show ?thesis
      using titled_session.bar [OF s2 _ _ bar] auto by simp
  qed
qed

subsection \<open>Examples\<close>

lemma example_nan_color:
  "parse_color default_rcParams (string_to_rgb engine_example)
     (case am_nan_color (am_default m) of None \<Rightarrow> rc_nan_color default_rcParams | Some c \<Rightarrow> Some c)
   = Inr [2 / 3, 2 / 3, 2 / 3]"
  by (simp add: parse_color_def default_rcParams_def engine_example_def am_default_def)

lemma example_no_texture:
  "am_texture_stage ext m None c = Inr c"
  by (simp add: am_texture_stage_def)

lemma with_scalars_fields [simp]:
  "am_scalars (with_scalars m arr rng) = Some (ScalarsArray arr)"
  "am_mesh (with_scalars m arr rng) = m"
  "am_texture (with_scalars m arr rng) = None"
  "am_color (with_scalars m arr rng) = None"
  "am_nan_color (with_scalars m arr rng) = am_nan_color (am_default m)"
  "am_rng (with_scalars m arr rng) = rng"
  "am_clim (with_scalars m arr rng) = None"
  "am_stitle (with_scalars m arr rng) = None"
  by (simp_all add: with_scalars_def am_default_def)

lemma cube_mesh_fields [simp]:
  "n_points cube_mesh = 8" "n_cells cube_mesh = 6" "textures cube_mesh = []"
  by (simp_all add: cube_mesh_def)

lemma next_handle_init [simp]: "next_handle (init_state shp) = 0"
  by (simp add: init_state_def)


lemma sample_numbers:
  "{v. Val v \<in> set (elements (flat_float sample_array))} = {0, 1, 2, 3, 4}"
  unfolding set_finite_values [symmetric]
  by (auto simp: sample_array_def flat_float_def finite_values_def)


lemma lower_surface: "lower ''surface'' = ''surface''"
  by code_simp

lemma with_color_fields [simp]:
  "am_scalars (with_color m rgb) = None"
  "am_mesh (with_color m rgb) = m"
  "am_texture (with_color m rgb) = None"
  "am_color (with_color m rgb) = Some (ColorSeq rgb)"
  "am_nan_color (with_color m rgb) = am_nan_color (am_default m)"
  "am_stitle (with_color m rgb) = None"
  "am_style (with_color m rgb) = None"
  "am_edge_color (with_color m rgb) = Some (ColorName ''black'')"
  by (simp_all add: with_color_def am_default_def)

lemma temp_mesh_active:
  "active_scalar temp_mesh = Some sample_array" "ndim sample_array = 1"
  "array_size sample_array = n_points temp_mesh" "textures temp_mesh = []"
  "snd (active_scalar_info temp_mesh) = Some ''temp''"
  by (simp_all add: temp_mesh_def active_scalar_def sample_array_def cube_mesh_def)

text \<open>
  C7, as stated, fails: the mesh has the active one-dimensional point array "temp" and the
  call gives no scalars, but it gives a color; the array is not used, the mapper uses field
  data and the mesh is left as it is.
\<close>

theorem default_scalar_fallback_counterexample:
  "am_scalars (with_color temp_mesh [1, 0, 0]) = None
   \<and> active_scalar (am_mesh (with_color temp_mesh [1, 0, 0])) = Some sample_array
   \<and> ndim sample_array = 1
   \<and> add_mesh default_rcParams engine_example (with_color temp_mesh [1, 0, 0]) (init_state (1, 1))
       = (None, (init_state (1, 1))
            \<lparr> mesh := Some temp_mesh, mapper := Some 0,
              heap := (heap (init_state (1, 1)))(0 := vtkDataSetMapper\<lparr> mode := UseFieldData \<rparr>),
              next_handle := 1 \<rparr>)"
proof -
  have style: "am_style_and_colors default_rcParams engine_example (with_color temp_mesh [1, 0, 0])
                 (Some (ColorSeq [1, 0, 0])) = None"
    by (simp add: am_style_and_colors_def lower_surface Let_def parse_color_def engine_example_def)
  have "add_mesh default_rcParams engine_example (with_color temp_mesh [1, 0, 0]) (init_state (1, 1))
       = (None, (init_state (1, 1))
            \<lparr> mesh := Some temp_mesh, mapper := Some 0,
              heap := (heap (init_state (1, 1)))(0 := vtkDataSetMapper\<lparr> mode := UseFieldData \<rparr>),
              next_handle := 1 \<rparr>)"
    by (simp add: add_mesh_def Let_def example_nan_color am_default_scalars_def example_no_texture
        am_scalar_formatting_none style am_set_main_values_def vtkDataSetMapper_def)
  then show ?thesis
    by (simp add: temp_mesh_active)
qed

theorem scalar_association_witness:
  "array_size (constant_array 8 1) = n_points cube_mesh
   \<and> mode (heap (snd (add_mesh default_rcParams engine_example
                        (with_scalars cube_mesh (constant_array 8 1) None) (init_state (1, 1)))) 0)
       = UsePointData
   \<and> array_size (constant_array 6 1) = n_cells cube_mesh
   \<and> array_size (constant_array 6 1) \<noteq> n_points cube_mesh
   \<and> mode (heap (snd (add_mesh default_rcParams engine_example
                        (with_scalars cube_mesh (constant_array 6 1) None) (init_state (1, 1)))) 0)
       = UseCellData
   \<and> array_size (constant_array 7 1) \<noteq> n_points cube_mesh
   \<and> array_size (constant_array 7 1) \<noteq> n_cells cube_mesh
   \<and> fst (add_mesh default_rcParams engine_example
             (with_scalars cube_mesh (constant_array 7 1) None) (init_state (1, 1)))
       = Some (NotMatching 7 8 6)"
proof -
  have sz: "array_size (constant_array n v) = n" for n v
    by (simp add: constant_array_def)
  note inst = scalar_association [where rc = default_rcParams and ext = engine_example
      and p = "init_state (1, 1)" and c = None and nan_rgb = "[2 / 3, 2 / 3, 2 / 3]"
      and arr = "constant_array n 1" and a = "with_scalars cube_mesh (constant_array n 1) None"
      for n]
  show ?thesis
    using inst [of 8] inst [of 6] inst [of 7]
    by (simp add: sz example_nan_color example_no_texture)
qed

theorem scalar_range_resolution_witness:
  "array_size sample_array = n_points cube_mesh
   \<and> scalar_range (heap (snd (add_mesh default_rcParams engine_example
         (with_scalars cube_mesh sample_array (Some (RngScalar (Val 2)))) (init_state (1, 1)))) 0)
       = (Val (- 2), Val 2)
   \<and> scalar_range (heap (snd (add_mesh default_rcParams engine_example
         (with_scalars cube_mesh sample_array (Some (RngPair (Val 1) (Val 3)))) (init_state (1, 1)))) 0)
       = (Val 1, Val 3)
   \<and> scalar_range (heap (snd (add_mesh default_rcParams engine_example
         (with_scalars cube_mesh sample_array (Some (RngPair (Val 0) (Val 0)))) (init_state (1, 1)))) 0)
       = scalar_range vtkDataSetMapper
   \<and> {v. Val v \<in> set (elements (flat_float sample_array))} \<noteq> {}
   \<and> scalar_range (heap (snd (add_mesh default_rcParams engine_example
         (with_scalars cube_mesh sample_array None) (init_state (1, 1)))) 0)
       = (Val 0, Val 4)"
proof -
  have sz: "array_size sample_array = 8" by (simp add: sample_array_def)
  note inst = scalar_range_resolution [where rc = default_rcParams and ext = engine_example
      and p = "init_state (1, 1)" and c = None and nan_rgb = "[2 / 3, 2 / 3, 2 / 3]"
      and arr = sample_array and a = "with_scalars cube_mesh sample_array r"
      for r]
  show ?thesis
    using inst [of "Some (RngScalar (Val 2))"] inst [of "Some (RngPair (Val 1) (Val 3))"]
      inst [of "Some (RngPair (Val 0) (Val 0))"] inst [of None]
    by (simp add: sz example_nan_color example_no_texture Let_def sample_numbers)
qed

theorem boolean_scalars_witness:
  "length [True, False, True, True, False, False, True, False] = n_points cube_mesh
   \<and> True \<in> set [True, False, True, True, False, False, True, False]
   \<and> False \<in> set [True, False, True, True, False, False, True, False]
   \<and> mode (heap (snd (add_mesh default_rcParams engine_example
         (with_scalars cube_mesh mask_array None) (init_state (1, 1)))) 0) = UsePointData
   \<and> mesh (snd (add_mesh default_rcParams engine_example
         (with_scalars cube_mesh mask_array None) (init_state (1, 1))))
       = Some (add_point_scalar
                 (NumArray 1 [Val 1, Val 0, Val 1, Val 1, Val 0, Val 0, Val 1, Val 0])
                 ''Data'' True cube_mesh)
   \<and> scalar_range (heap (snd (add_mesh default_rcParams engine_example
         (with_scalars cube_mesh mask_array None) (init_state (1, 1)))) 0) = (Val 0, Val 1)"
  using boolean_scalars [where rc = default_rcParams and ext = engine_example
      and p = "init_state (1, 1)" and c = None and nan_rgb = "[2 / 3, 2 / 3, 2 / 3]"
      and d = 1 and bs = "[True, False, True, True, False, False, True, False]"
      and a = "with_scalars cube_mesh mask_array None"]
  by (simp add: example_nan_color example_no_texture mask_array_def)

theorem default_scalar_fallback_witness:
  "am_scalars (am_default temp_mesh) = None
   \<and> am_color (am_default temp_mesh) = None \<and> am_texture (am_default temp_mesh) = None
   \<and> textures temp_mesh = [] \<and> active_scalar temp_mesh = Some sample_array
   \<and> ndim sample_array = 1 \<and> array_size sample_array = n_points temp_mesh
   \<and> mode (heap (snd (add_mesh default_rcParams engine_example (am_default temp_mesh)
                        (init_state (1, 1)))) 0) = UsePointData
   \<and> mesh (snd (add_mesh default_rcParams engine_example (am_default temp_mesh) (init_state (1, 1))))
       = Some (add_point_scalar sample_array ''temp'' True temp_mesh)
   \<and> am_color (with_color temp_mesh [1, 0, 0]) \<noteq> None
   \<and> mode (heap (snd (add_mesh default_rcParams engine_example (with_color temp_mesh [1, 0, 0])
                        (init_state (1, 1)))) 0) = UseFieldData
   \<and> mesh (snd (add_mesh default_rcParams engine_example (with_color temp_mesh [1, 0, 0])
                  (init_state (1, 1)))) = Some temp_mesh"
proof -
  have ff: "flat_float sample_array = sample_array"
    by (simp add: flat_float_def sample_array_def)
  have d: "am_scalars (am_default m) = None" "am_color (am_default m) = None"
    "am_texture (am_default m) = None" "am_mesh (am_default m) = m" "am_stitle (am_default m) = None"
    for m
    by (simp_all add: am_default_def)
  have dflt: "fst (am_default_scalars (with_color temp_mesh [1, 0, 0])) = None"
    by (simp add: am_default_scalars_def)
  show ?thesis
    using default_scalar_fallback [where rc = default_rcParams and ext = engine_example
        and p = "init_state (1, 1)" and a = "am_default temp_mesh" and arr = sample_array
        and nan_rgb = "[2 / 3, 2 / 3, 2 / 3]" and c = None]
      default_scalar_fallback [where rc = default_rcParams and ext = engine_example
        and p = "init_state (1, 1)" and a = "with_color temp_mesh [1, 0, 0]" and arr = sample_array
        and nan_rgb = "[2 / 3, 2 / 3, 2 / 3]" and c = "Some (ColorSeq [1, 0, 0])"]
    by (simp add: d dflt temp_mesh_active example_nan_color example_no_texture ff)
qed

end
